theory Spec2Isabelle
  imports Complex_Main
begin

section \<open>JavaScript values used by the risk-scoring engine\<close>

text \<open>
  The engine is the class \<open>RugPullDetector\<close>. Its arithmetic is on JavaScript Numbers,
  which are IEEE 754 doubles. A Number is \<open>Num r\<close>, the finite double of value \<open>r\<close>, or one
  of \<open>NaN\<close>, \<open>Infinity\<close>, \<open>-Infinity\<close>. The two zeros are not told apart: the engine never
  divides and never compares with \<open>Object.is\<close>. The operations that compute a Number round
  their exact result to the nearest double, as written out below; comparisons, \<open>Math.min\<close>,
  \<open>Math.max\<close> and \<open>Math.round\<close> are exact.
\<close>

datatype jsnum = Num real | NaN | PosInf | NegInf

subsection \<open>Rounding to the nearest double\<close>

text \<open>The nearest integer, a tie going to the even one.\<close>

definition round_even :: "real \<Rightarrow> int" where
  "round_even r =
     (let f = \<lfloor>r\<rfloor>
      in if r - of_int f < 1 / 2 then f
         else if 1 / 2 < r - of_int f then f + 1
         else if even f then f else f + 1)"

text \<open>
  The binary exponent of a non-negative real: \<open>e\<close> with \<open>2^e \<le> x < 2^(e+1)\<close>, kept between
  the least exponent \<open>-1022\<close> (below \<open>2^-1022\<close> the doubles are subnormal and equally
  spaced) and the greatest exponent \<open>1023\<close>. The search goes up from 0 or down from -1.
\<close>

fun binade_up :: "nat \<Rightarrow> int \<Rightarrow> real \<Rightarrow> int" where
  "binade_up 0 e x = e"
| "binade_up (Suc n) e x = (if x < 2 powi (e + 1) then e else binade_up n (e + 1) x)"

fun binade_down :: "nat \<Rightarrow> int \<Rightarrow> real \<Rightarrow> int" where
  "binade_down 0 e x = e"
| "binade_down (Suc n) e x = (if 2 powi e \<le> x then e else binade_down n (e - 1) x)"

definition binade :: "real \<Rightarrow> int" where
  "binade x = (if 1 \<le> x then binade_up 1023 0 x else binade_down 1021 (- 1) x)"

text \<open>
  A double has 53 significant bits, so in the binade of exponent \<open>e\<close> the doubles are the
  multiples of \<open>2^(e-52)\<close>. \<open>fl_pos x\<close> is the nearest one to \<open>x \<ge> 0\<close>, a tie going to the
  even significand; \<open>fl\<close> adds the sign and the overflow to an infinity.
\<close>

definition fl_pos :: "real \<Rightarrow> real" where
  "fl_pos x = (let q = 2 powi (binade x - 52) in q * of_int (round_even (x / q)))"

definition fl :: "real \<Rightarrow> jsnum" where
  "fl x =
     (if 0 \<le> x
      then (if 2 ^ 1024 \<le> fl_pos x then PosInf else Num (fl_pos x))
      else (if 2 ^ 1024 \<le> fl_pos (- x) then NegInf else Num (- fl_pos (- x))))"

text \<open>A decimal literal of the source, such as \<open>0.3\<close>, denotes the nearest double.\<close>

definition decimal_literal :: "real \<Rightarrow> jsnum" where
  "decimal_literal r = fl r"

subsection \<open>Values, conversions, operators\<close>

text \<open>
  A \<open>riskScore\<close> field is not checked by the engine, so it may hold any value. The model
  covers a missing field (\<open>undefined\<close>), \<open>null\<close>, booleans, Numbers, BigInts, Symbols and a
  plain object such as \<open>{}\<close>; string-valued scores are outside the model.
\<close>

datatype jsval =
  JUndefined | JNull | JBoolean bool | JNumber jsnum | JBigInt int | JSymbol | JPlainObject

text \<open>
  What a \<open>throw\<close> or a rejected promise carries: an \<open>Error\<close> with its message, a
  \<open>TypeError\<close> raised by the language (its message depends on the engine and is left out),
  or any other value.
\<close>

datatype js_error = Error string | TypeError | Thrown jsval

fun ToBoolean :: "jsval \<Rightarrow> bool" where
  "ToBoolean JUndefined = False"
| "ToBoolean JNull = False"
| "ToBoolean (JBoolean b) = b"
| "ToBoolean (JNumber (Num r)) = (r \<noteq> 0)"
| "ToBoolean (JNumber NaN) = False"
| "ToBoolean (JNumber PosInf) = True"
| "ToBoolean (JNumber NegInf) = True"
| "ToBoolean (JBigInt i) = (i \<noteq> 0)"
| "ToBoolean JSymbol = True"
| "ToBoolean JPlainObject = True"

text \<open>\<open>ToNumber\<close> throws a \<open>TypeError\<close> on a BigInt and on a Symbol.\<close>

fun ToNumber :: "jsval \<Rightarrow> js_error + jsnum" where
  "ToNumber JUndefined = Inr NaN"
| "ToNumber JNull = Inr (Num 0)"
| "ToNumber (JBoolean b) = Inr (Num (if b then 1 else 0))"
| "ToNumber (JNumber n) = Inr n"
| "ToNumber (JBigInt i) = Inl TypeError"
| "ToNumber JSymbol = Inl TypeError"
| "ToNumber JPlainObject = Inr NaN"

text \<open>\<open>a || b\<close>: the left operand when it is truthy, the right one otherwise.\<close>

definition js_or :: "jsval \<Rightarrow> jsval \<Rightarrow> jsval" where
  "js_or a b = (if ToBoolean a then a else b)"

text \<open>\<open>a >= b\<close> on Numbers: false as soon as one side is \<open>NaN\<close>.\<close>

fun js_ge :: "jsnum \<Rightarrow> jsnum \<Rightarrow> bool" where
  "js_ge NaN y = False"
| "js_ge x NaN = False"
| "js_ge PosInf y = True"
| "js_ge x NegInf = True"
| "js_ge (Num a) (Num b) = (b \<le> a)"
| "js_ge (Num a) PosInf = False"
| "js_ge NegInf y = False"

fun Math_max :: "jsnum \<Rightarrow> jsnum \<Rightarrow> jsnum" where
  "Math_max NaN y = NaN"
| "Math_max x NaN = NaN"
| "Math_max PosInf y = PosInf"
| "Math_max x PosInf = PosInf"
| "Math_max NegInf y = y"
| "Math_max x NegInf = x"
| "Math_max (Num a) (Num b) = Num (max a b)"

fun Math_min :: "jsnum \<Rightarrow> jsnum \<Rightarrow> jsnum" where
  "Math_min NaN y = NaN"
| "Math_min x NaN = NaN"
| "Math_min NegInf y = NegInf"
| "Math_min x NegInf = NegInf"
| "Math_min PosInf y = y"
| "Math_min x PosInf = x"
| "Math_min (Num a) (Num b) = Num (min a b)"

text \<open>
  \<open>Math.round\<close>: the nearest integer, a tie going to the larger one
  (\<open>Math.round(2.5) = 3\<close>, \<open>Math.round(-2.5) = -2\<close>). The result is exact: it is a double
  whenever the argument is.
\<close>

fun Math_round :: "jsnum \<Rightarrow> jsnum" where
  "Math_round (Num r) = Num (of_int \<lfloor>r + 1 / 2\<rfloor>)"
| "Math_round NaN = NaN"
| "Math_round PosInf = PosInf"
| "Math_round NegInf = NegInf"

text \<open>\<open>a * b\<close> and \<open>a + b\<close> on Numbers: the exact result, rounded to the nearest double.\<close>

fun js_mul :: "jsnum \<Rightarrow> jsnum \<Rightarrow> jsnum" where
  "js_mul NaN y = NaN"
| "js_mul x NaN = NaN"
| "js_mul (Num a) (Num b) = fl (a * b)"
| "js_mul PosInf (Num b) = (if 0 < b then PosInf else if b < 0 then NegInf else NaN)"
| "js_mul NegInf (Num b) = (if 0 < b then NegInf else if b < 0 then PosInf else NaN)"
| "js_mul (Num a) PosInf = (if 0 < a then PosInf else if a < 0 then NegInf else NaN)"
| "js_mul (Num a) NegInf = (if 0 < a then NegInf else if a < 0 then PosInf else NaN)"
| "js_mul PosInf PosInf = PosInf"
| "js_mul PosInf NegInf = NegInf"
| "js_mul NegInf PosInf = NegInf"
| "js_mul NegInf NegInf = PosInf"

fun js_add :: "jsnum \<Rightarrow> jsnum \<Rightarrow> jsnum" where
  "js_add NaN y = NaN"
| "js_add x NaN = NaN"
| "js_add (Num a) (Num b) = fl (a + b)"
| "js_add PosInf NegInf = NaN"
| "js_add NegInf PosInf = NaN"
| "js_add PosInf y = PosInf"
| "js_add x PosInf = PosInf"
| "js_add NegInf y = NegInf"
| "js_add x NegInf = NegInf"

section \<open>Sub-analyses, normalizer, aggregator, classifier\<close>

text \<open>
  What a sub-analyzer hands over: \<open>{ riskScore, redFlags, ... }\<close>. A missing
  \<open>redFlags\<close> field (the unit tests pass \<open>{}\<close>) is \<open>None\<close>. Record fields carry
  a prefix naming their record, so that parameters and locals keep their source names.
\<close>

record SubAnalysis =
  sub_riskScore :: jsval
  sub_redFlags :: "string list option"

text \<open>
  \<open>normalizeScore(score) { return Math.min(100, Math.max(0, score)); }\<close>. \<open>Math.max\<close>
  converts \<open>score\<close> to a Number first, which is where a BigInt or a Symbol throws.
\<close>

definition normalizeScore :: "jsval \<Rightarrow> js_error + jsnum" where
  "normalizeScore score =
     (case ToNumber score of
        Inl error \<Rightarrow> Inl error
      | Inr n \<Rightarrow> Inr (Math_min (Num 100) (Math_max (Num 0) n)))"

text \<open>The three scores are normalized in the order on-chain, social, code.\<close>

definition calculateRiskScore ::
  "SubAnalysis \<Rightarrow> SubAnalysis \<Rightarrow> SubAnalysis \<Rightarrow> js_error + jsnum" where
  "calculateRiskScore onChain social code =
    (let onChainWeight = decimal_literal 0.5;
         socialWeight = decimal_literal 0.3;
         codeWeight = decimal_literal 0.2
     in case normalizeScore (js_or (sub_riskScore onChain) (JNumber (Num 0))) of
          Inl error \<Rightarrow> Inl error
        | Inr onChainScore \<Rightarrow>
     (case normalizeScore (js_or (sub_riskScore social) (JNumber (Num 0))) of
          Inl error \<Rightarrow> Inl error
        | Inr socialScore \<Rightarrow>
     (case normalizeScore (js_or (sub_riskScore code) (JNumber (Num 0))) of
          Inl error \<Rightarrow> Inl error
        | Inr codeScore \<Rightarrow>
            Inr (js_add (js_add (js_mul onChainScore onChainWeight)
                                (js_mul socialScore socialWeight))
                        (js_mul codeScore codeWeight)))))"

definition getRiskLevel :: "jsnum \<Rightarrow> string" where
  "getRiskLevel score =
    (if js_ge score (Num 80) then ''CRITICAL''
     else if js_ge score (Num 60) then ''HIGH''
     else if js_ge score (Num 40) then ''MEDIUM''
     else if js_ge score (Num 20) then ''LOW''
     else ''SAFE'')"

text \<open>
  The aggregation as the specification words it, for comparison with the code:
  \<open>round(normalize(onChain.riskScore) * 0.5 + normalize(social.riskScore) * 0.3 +
  normalize(code.riskScore) * 0.2)\<close>.
\<close>

definition spec_aggregate ::
  "SubAnalysis \<Rightarrow> SubAnalysis \<Rightarrow> SubAnalysis \<Rightarrow> js_error + jsnum" where
  "spec_aggregate onChain social code =
     (case normalizeScore (sub_riskScore onChain) of
        Inl error \<Rightarrow> Inl error
      | Inr a \<Rightarrow>
     (case normalizeScore (sub_riskScore social) of
        Inl error \<Rightarrow> Inl error
      | Inr b \<Rightarrow>
     (case normalizeScore (sub_riskScore code) of
        Inl error \<Rightarrow> Inl error
      | Inr c \<Rightarrow>
          Inr (Math_round (js_add (js_add (js_mul a (decimal_literal 0.5))
                                          (js_mul b (decimal_literal 0.3)))
                                  (js_mul c (decimal_literal 0.2)))))))"

section \<open>Strings\<close>

text \<open>
  A string is a list of bytes, its text in UTF-8: the three emoji of the summary are the
  four bytes of their encodings. \<open>String.prototype.includes\<close> searches UTF-16 code units;
  on well-formed text the two notions of substring agree.
\<close>

fun startsWith :: "string \<Rightarrow> string \<Rightarrow> bool" where
  "startsWith s [] = True"
| "startsWith [] (p # ps) = False"
| "startsWith (c # cs) (p # ps) = (c = p \<and> startsWith cs ps)"

text \<open>\<open>s.includes(p)\<close>: \<open>p\<close> starts at some position of \<open>s\<close>.\<close>

fun str_includes :: "string \<Rightarrow> string \<Rightarrow> bool" where
  "str_includes [] p = (p = [])"
| "str_includes (c # cs) p = (startsWith (c # cs) p \<or> str_includes cs p)"

definition newline :: string where
  "newline = [CHR 0x0A]"

definition emoji_siren :: string where
  "emoji_siren = [CHR 0xF0, CHR 0x9F, CHR 0x9A, CHR 0xA8]"

definition emoji_red_circle :: string where
  "emoji_red_circle = [CHR 0xF0, CHR 0x9F, CHR 0x94, CHR 0xB4]"

definition emoji_bulb :: string where
  "emoji_bulb = [CHR 0xF0, CHR 0x9F, CHR 0x92, CHR 0xA1]"

text \<open>
  Numbers inside a template literal. The engine renders only integral Numbers (a
  \<open>Math.round\<close> result, an array length). \<open>Number::toString\<close> prints the fewest
  significant digits that still denote the same double, filled up with zeros: every digit
  below \<open>2^53\<close>, fewer above (\<open>2^60\<close> prints as 1152921504606847000); from \<open>10^21\<close> on
  it uses exponent notation; the special values print their names.
\<close>

definition digit :: "nat \<Rightarrow> char" where
  "digit d = ''0123456789'' ! (d mod 10)"

function nat_to_string :: "nat \<Rightarrow> string" where
  "nat_to_string n = (if n < 10 then [digit n] else nat_to_string (n div 10) @ [digit (n mod 10)])"
  by pat_completeness auto
termination
  by (relation "measure (\<lambda>n. n)") auto

declare nat_to_string.simps [simp del]

text \<open>
  The decimal with the fewest significant digits that rounds to the double \<open>m\<close>. With
  \<open>Suc j\<close> trailing zeros the two candidates are the multiples of \<open>10^(Suc j)\<close> around
  \<open>m\<close>; of two that both round to \<open>m\<close> the closer one is taken, the even one on a tie.
  The search starts with one significant digit and ends with all digits of \<open>m\<close>.
\<close>

fun shortest_from :: "nat \<Rightarrow> nat \<Rightarrow> nat" where
  "shortest_from 0 m = m"
| "shortest_from (Suc j) m =
     (let unit = 10 ^ Suc j;
          lo = (m div unit) * unit;
          hi = lo + unit;
          lo_ok = (fl (real lo) = Num (real m));
          hi_ok = (fl (real hi) = Num (real m))
      in if lo_ok \<and> hi_ok
         then (if m - lo < hi - m then lo
               else if hi - m < m - lo then hi
               else if even (m div unit) then lo else hi)
         else if lo_ok then lo
         else if hi_ok then hi
         else shortest_from j m)"

definition shortest_decimal :: "nat \<Rightarrow> nat" where
  "shortest_decimal m = shortest_from (length (nat_to_string m) - 1) m"

definition exponent_notation :: "string \<Rightarrow> string" where
  "exponent_notation ds =
     (let m = rev (dropWhile (\<lambda>c. c = CHR ''0'') (rev ds))
      in take 1 m @ (if 1 < length m then ''.'' @ drop 1 m else [])
         @ ''e+'' @ nat_to_string (length ds - 1))"

definition integer_to_string :: "int \<Rightarrow> string" where
  "integer_to_string i =
     (let ds = nat_to_string (shortest_decimal (nat \<bar>i\<bar>))
      in (if i < 0 then ''-'' else []) @ (if \<bar>i\<bar> < 10 ^ 21 then ds else exponent_notation ds))"

text \<open>Exact on integral values; fractional digits are not modelled.\<close>

fun numberToString :: "jsnum \<Rightarrow> string" where
  "numberToString (Num r) = integer_to_string \<lfloor>r\<rfloor>"
| "numberToString NaN = ''NaN''"
| "numberToString PosInf = ''Infinity''"
| "numberToString NegInf = ''-Infinity''"

section \<open>Recommendation generator\<close>

text \<open>
  The callback of \<open>onChain.redFlags.forEach\<close>: the recommendations after one flag has been
  looked at. \<open>push\<close> appends at the end.
\<close>

definition push_flag_recommendations :: "string list \<Rightarrow> string \<Rightarrow> string list" where
  "push_flag_recommendations recommendations flag =
    (let recommendations =
           (if str_includes flag ''mint authority''
            then recommendations @ [''Mint authority not renounced - unlimited token creation possible'']
            else recommendations);
         recommendations =
           (if str_includes flag ''liquidity'' \<or> str_includes flag ''LP''
            then recommendations @ [''Liquidity not locked - developers can remove funds anytime'']
            else recommendations);
         recommendations =
           (if str_includes flag ''concentration'' \<or> str_includes flag ''distribution''
            then recommendations @ [''High token concentration - single wallet controls majority supply'']
            else recommendations)
     in recommendations)"

definition generateRecommendations ::
  "jsnum \<Rightarrow> SubAnalysis \<Rightarrow> SubAnalysis \<Rightarrow> SubAnalysis \<Rightarrow> string list" where
  "generateRecommendations riskScore onChain social code =
    (let recommendations = [];
         recommendations =
           (if js_ge riskScore (Num 80)
            then (recommendations @ [''DO NOT BUY - HIGH RUG PULL RISK''])
                   @ [''Avoid this token completely'']
            else if js_ge riskScore (Num 60)
            then (recommendations @ [''EXTREME CAUTION - High risk detected''])
                   @ [''Only invest what you can afford to lose'']
            else if js_ge riskScore (Num 40)
            then (recommendations @ [''MODERATE CAUTION - Some red flags present''])
                   @ [''Research thoroughly before investing'']
            else (recommendations @ [''APPEARS LEGITIMATE - Low risk detected''])
                   @ [''Still exercise normal caution with new tokens'']);
         recommendations =
           (case sub_redFlags onChain of
              None \<Rightarrow> recommendations
            | Some flags \<Rightarrow>
                if 0 < length flags
                then foldl push_flag_recommendations recommendations flags
                else recommendations);
         recommendations =
           (case sub_redFlags social of
              None \<Rightarrow> recommendations
            | Some flags \<Rightarrow>
                if 0 < length flags
                then recommendations @ [''Social media shows suspicious activity'']
                else recommendations);
         recommendations =
           (case sub_redFlags code of
              None \<Rightarrow> recommendations
            | Some flags \<Rightarrow>
                if 0 < length flags
                then recommendations @ [''Contract contains potential vulnerabilities'']
                else recommendations)
     in recommendations)"

text \<open>
  The two headline strings \<open>generateRecommendations\<close> pushes first, by the band of the
  score.
\<close>

definition tier_headlines :: "jsnum \<Rightarrow> string list" where
  "tier_headlines riskScore =
     (if js_ge riskScore (Num 80)
      then [''DO NOT BUY - HIGH RUG PULL RISK'', ''Avoid this token completely'']
      else if js_ge riskScore (Num 60)
      then [''EXTREME CAUTION - High risk detected'', ''Only invest what you can afford to lose'']
      else if js_ge riskScore (Num 40)
      then [''MODERATE CAUTION - Some red flags present'', ''Research thoroughly before investing'']
      else [''APPEARS LEGITIMATE - Low risk detected'',
            ''Still exercise normal caution with new tokens''])"

section \<open>Summary generator\<close>

text \<open>\<open>x.redFlags || []\<close>\<close>

definition flags_or_empty :: "SubAnalysis \<Rightarrow> string list" where
  "flags_or_empty x = (case sub_redFlags x of None \<Rightarrow> [] | Some flags \<Rightarrow> flags)"

definition generateSummary ::
  "jsnum \<Rightarrow> SubAnalysis \<Rightarrow> SubAnalysis \<Rightarrow> SubAnalysis \<Rightarrow> string" where
  "generateSummary riskScore onChain social code =
    (let level = getRiskLevel riskScore;
         summary = emoji_siren @ '' RUG PULL ALERT: This token has '' @ level
                   @ '' RUG PULL RISK ('' @ numberToString (Math_round riskScore) @ ''/100)''
                   @ newline @ newline;
         allRedFlags = flags_or_empty onChain @ flags_or_empty social @ flags_or_empty code;
         summary =
           (if 0 < length allRedFlags
            then (let summary = summary @ emoji_red_circle @ '' KEY RED FLAGS:'' @ newline;
                      summary = foldl (\<lambda>summary flag. summary @ ''- '' @ flag @ newline)
                                      summary (take 5 allRedFlags);
                      summary =
                        (if 5 < length allRedFlags
                         then summary @ ''- ...and '' @ nat_to_string (length allRedFlags - 5)
                              @ '' more issues'' @ newline
                         else summary)
                  in summary @ newline)
            else summary);
         summary = summary @ emoji_bulb @ '' RECOMMENDATION: '';
         summary =
           (if js_ge riskScore (Num 80) then summary @ ''DO NOT BUY''
            else if js_ge riskScore (Num 60) then summary @ ''EXTREME CAUTION''
            else if js_ge riskScore (Num 40) then summary @ ''MODERATE CAUTION''
            else summary @ ''APPEARS SAFE'')
     in summary)"

section \<open>Orchestrator\<close>

record TokenInfo =
  info_symbol :: "string option"

record AnalysisReport =
  report_token :: string
  report_mintAddress :: string
  report_timestamp :: string
  report_riskScore :: jsnum
  report_riskLevel :: string
  report_analysis :: "SubAnalysis \<times> SubAnalysis \<times> SubAnalysis"
  report_recommendations :: "string list"
  report_summary :: string

text \<open>
  The collaborators, as the outcome of each call in one run: \<open>Inl\<close> the reason of a
  rejection, \<open>Inr\<close> the value the promise resolves to (\<open>None\<close> for \<open>null\<close>).
\<close>

record Collaborators =
  getTokenInfo :: "string \<Rightarrow> js_error + TokenInfo option"
  analyzeTokenEconomics :: "string \<Rightarrow> js_error + SubAnalysis"
  analyzeSocialSignals :: "string \<Rightarrow> js_error + SubAnalysis"
  analyzeCode :: "string \<Rightarrow> js_error + SubAnalysis"

datatype call = GetTokenInfo | AnalyzeTokenEconomics | AnalyzeSocialSignals | AnalyzeCode

text \<open>
  \<open>Promise.all\<close> over promises that have all been started. The scheduler is the list of
  array indices in the order the promises settle; a promise the list leaves out settles
  after the listed ones, in array order. The first rejection met rejects the whole; when
  every promise has fulfilled, the values are returned in array order.
\<close>

definition fulfilled_values :: "(js_error + 'a) list \<Rightarrow> 'a list" where
  "fulfilled_values ps = List.map_filter (\<lambda>p. case p of Inl e \<Rightarrow> None | Inr v \<Rightarrow> Some v) ps"

fun settle_all :: "(js_error + 'a) list \<Rightarrow> nat list \<Rightarrow> js_error + 'a list" where
  "settle_all ps [] = Inr (fulfilled_values ps)"
| "settle_all ps (i # rest) =
     (if i < length ps
      then (case ps ! i of Inl e \<Rightarrow> Inl e | Inr v \<Rightarrow> settle_all ps rest)
      else settle_all ps rest)"

definition Promise_all :: "nat list \<Rightarrow> (js_error + 'a) list \<Rightarrow> js_error + 'a list" where
  "Promise_all order ps = settle_all ps (order @ [0..<length ps])"

text \<open>
  Steps 4 and 5 of \<open>analyzeToken\<close>: the recommendations and the report, from the score that
  step 3 computed. The report's \<open>token\<close> is \<open>tokenInfo.symbol || tokenMint\<close>, a missing or
  empty symbol being falsy.
\<close>

definition compile_report ::
  "TokenInfo \<Rightarrow> string \<Rightarrow> string \<Rightarrow> jsnum \<Rightarrow> SubAnalysis \<Rightarrow> SubAnalysis \<Rightarrow> SubAnalysis
     \<Rightarrow> AnalysisReport" where
  "compile_report tokenInfo tokenMint now riskScore onChainResult socialResult codeResult =
    (let recommendations = generateRecommendations riskScore onChainResult socialResult codeResult
     in \<lparr> report_token =
            (case info_symbol tokenInfo of
               None \<Rightarrow> tokenMint
             | Some symbol \<Rightarrow> if symbol \<noteq> [] then symbol else tokenMint),
          report_mintAddress = tokenMint,
          report_timestamp = now,
          report_riskScore = Math_round riskScore,
          report_riskLevel = getRiskLevel riskScore,
          report_analysis = (onChainResult, socialResult, codeResult),
          report_recommendations = recommendations,
          report_summary = generateSummary riskScore onChainResult socialResult codeResult \<rparr>)"

text \<open>
  The \<open>try\<close> block of \<open>analyzeToken\<close>: the collaborator calls it makes, in order, and its
  outcome. \<open>now\<close> is \<open>new Date().toISOString()\<close>; console output is left out.
  Destructuring a result array that does not hold three values would hand \<open>undefined\<close> to
  \<open>calculateRiskScore\<close>, a \<open>TypeError\<close>; three promises never give such an array.
\<close>

definition analyzeToken_try ::
  "Collaborators \<Rightarrow> nat list \<Rightarrow> string \<Rightarrow> string \<Rightarrow> call list \<times> (js_error + AnalysisReport)" where
  "analyzeToken_try this order now tokenMint =
    (case getTokenInfo this tokenMint of
       Inl error \<Rightarrow> ([GetTokenInfo], Inl error)
     | Inr None \<Rightarrow> ([GetTokenInfo], Inl (Error ''Token not found or invalid''))
     | Inr (Some tokenInfo) \<Rightarrow>
         (let calls = [GetTokenInfo, AnalyzeTokenEconomics, AnalyzeSocialSignals, AnalyzeCode]
          in case Promise_all order [analyzeTokenEconomics this tokenMint,
                                     analyzeSocialSignals this tokenMint,
                                     analyzeCode this tokenMint] of
               Inl error \<Rightarrow> (calls, Inl error)
             | Inr [onChainResult, socialResult, codeResult] \<Rightarrow>
                 (case calculateRiskScore onChainResult socialResult codeResult of
                    Inl error \<Rightarrow> (calls, Inl error)
                  | Inr riskScore \<Rightarrow>
                      (calls, Inr (compile_report tokenInfo tokenMint now riskScore
                                     onChainResult socialResult codeResult)))
             | Inr _ \<Rightarrow> (calls, Inl TypeError)))"

text \<open>
  The \<open>catch\<close> block: \<open>console.error(..., error.message); throw error;\<close>. Reading
  \<open>message\<close> of \<open>undefined\<close> or \<open>null\<close> throws a \<open>TypeError\<close>, which then leaves in place
  of the error that was caught; on every other value the read succeeds and the error is
  thrown again as it is.
\<close>

fun catch_block :: "js_error \<Rightarrow> js_error" where
  "catch_block (Thrown JUndefined) = TypeError"
| "catch_block (Thrown JNull) = TypeError"
| "catch_block error = error"

definition analyzeToken ::
  "Collaborators \<Rightarrow> nat list \<Rightarrow> string \<Rightarrow> string \<Rightarrow> call list \<times> (js_error + AnalysisReport)" where
  "analyzeToken this order now tokenMint =
    (case analyzeToken_try this order now tokenMint of
       (calls, Inl error) \<Rightarrow> (calls, Inl (catch_block error))
     | (calls, Inr report) \<Rightarrow> (calls, Inr report))"

text \<open>
  Collaborators that answer every call with a fixed outcome, as the mocks of the unit
  tests do (\<open>mockResolvedValue\<close>, \<open>mockRejectedValue\<close>).
\<close>

definition mock_collaborators ::
  "(js_error + TokenInfo option) \<Rightarrow> (js_error + SubAnalysis) \<Rightarrow> (js_error + SubAnalysis)
     \<Rightarrow> (js_error + SubAnalysis) \<Rightarrow> Collaborators" where
  "mock_collaborators tokenInfo onChainResult socialResult codeResult =
     \<lparr> getTokenInfo = (\<lambda>tokenMint. tokenInfo),
       analyzeTokenEconomics = (\<lambda>tokenMint. onChainResult),
       analyzeSocialSignals = (\<lambda>tokenMint. socialResult),
       analyzeCode = (\<lambda>tokenMint. codeResult) \<rparr>"

section \<open>Properties of the rounding to doubles\<close>

lemma round_even_of_int: "round_even (of_int k) = k"
  by (simp add: round_even_def)

lemma round_even_floor: "\<lfloor>r\<rfloor> \<le> round_even r" "round_even r \<le> \<lfloor>r\<rfloor> + 1"
  by (simp_all add: round_even_def Let_def)

lemma round_even_mono:
  assumes "r \<le> s"
  shows "round_even r \<le> round_even s"
proof (cases "\<lfloor>r\<rfloor> < \<lfloor>s\<rfloor>")
  case True
  then show ?thesis
    using round_even_floor(2) [of r] round_even_floor(1) [of s] by linarith
next
  case False
  then have "\<lfloor>r\<rfloor> = \<lfloor>s\<rfloor>"
    using floor_mono [OF assms] by linarith
  with assms show ?thesis
    by (auto simp: round_even_def Let_def)
qed

lemma round_even_nonneg: "0 \<le> r \<Longrightarrow> 0 \<le> round_even r"
  using round_even_mono [of 0 r] round_even_of_int [of 0] by simp

lemma binade_up_range: "e \<le> binade_up n e x \<and> binade_up n e x \<le> e + int n"
  by (induction n e x rule: binade_up.induct) auto

lemma binade_up_upper:
  "binade_up n e x < e + int n \<Longrightarrow> x < 2 powi (binade_up n e x + 1)"
  by (induction n e x rule: binade_up.induct) (auto split: if_splits)

lemma binade_up_lower:
  "e < binade_up n e x \<Longrightarrow> 2 powi (binade_up n e x) \<le> x"
proof (induction n e x rule: binade_up.induct)
  case (1 e x)
  then show ?case by simp
next
  case (2 n e x)
  show ?case
  proof (cases "x < 2 powi (e + 1)")
    case True
    with 2 show ?thesis by simp
  next
    case False
    show ?thesis
    proof (cases "e + 1 < binade_up n (e + 1) x")
      case True
      with 2 False show ?thesis by simp
    next
      case False
      then have "binade_up n (e + 1) x = e + 1"
        using binade_up_range [of "e + 1" n x] by linarith
      with \<open>\<not> x < 2 powi (e + 1)\<close> show ?thesis by simp
    qed
  qed
qed

lemma binade_down_range: "e - int n \<le> binade_down n e x \<and> binade_down n e x \<le> e"
  by (induction n e x rule: binade_down.induct) auto

lemma binade_down_lower:
  "e - int n < binade_down n e x \<Longrightarrow> 2 powi (binade_down n e x) \<le> x"
  by (induction n e x rule: binade_down.induct) (auto split: if_splits)

lemma binade_down_upper:
  "binade_down n e x < e \<Longrightarrow> x < 2 powi (binade_down n e x + 1)"
proof (induction n e x rule: binade_down.induct)
  case (1 e x)
  then show ?case by simp
next
  case (2 n e x)
  show ?case
  proof (cases "2 powi e \<le> x")
    case True
    with 2 show ?thesis by simp
  next
    case False
    show ?thesis
    proof (cases "binade_down n (e - 1) x < e - 1")
      case True
      with 2 False show ?thesis by simp
    next
      case False
      then have "binade_down n (e - 1) x = e - 1"
        using binade_down_range [of "e - 1" n x] by linarith
      with \<open>\<not> 2 powi e \<le> x\<close> show ?thesis by simp
    qed
  qed
qed

lemma binade_range: "- 1022 \<le> binade x" "binade x \<le> 1023"
  using binade_up_range [of 0 1023 x] binade_down_range [of "- 1" 1021 x]
  by (auto simp: binade_def)

lemma binade_lower: "- 1022 < binade x \<Longrightarrow> 2 powi (binade x) \<le> x"
proof (cases "1 \<le> x")
  case True
  assume "- 1022 < binade x"
  show ?thesis
  proof (cases "0 < binade_up 1023 0 x")
    case True
    then show ?thesis
      using binade_up_lower [of 0 1023 x] \<open>1 \<le> x\<close> by (simp add: binade_def)
  next
    case False
    then have "binade_up 1023 0 x = 0"
      using binade_up_range [of 0 1023 x] by linarith
    then show ?thesis using \<open>1 \<le> x\<close> by (simp add: binade_def)
  qed
next
  case False
  assume "- 1022 < binade x"
  then show ?thesis
    using binade_down_lower [of "- 1" 1021 x] False by (simp add: binade_def)
qed

lemma binade_upper: "binade x < 1023 \<Longrightarrow> x < 2 powi (binade x + 1)"
proof (cases "1 \<le> x")
  case True
  assume "binade x < 1023"
  then show ?thesis
    using binade_up_upper [of 1023 0 x] True by (simp add: binade_def)
next
  case False
  assume "binade x < 1023"
  show ?thesis
  proof (cases "binade_down 1021 (- 1) x < - 1")
    case True
    then show ?thesis
      using binade_down_upper [of 1021 "- 1" x] False by (simp add: binade_def)
  next
    case False
    then have "binade_down 1021 (- 1) x = - 1"
      using binade_down_range [of "- 1" 1021 x] by linarith
    then show ?thesis using \<open>\<not> 1 \<le> x\<close> by (simp add: binade_def)
  qed
qed

lemma pow2_mono: "a \<le> b \<Longrightarrow> (2::real) powi a \<le> 2 powi b"
  by (rule power_int_increasing) simp_all

lemma pow2_pos: "0 < (2::real) powi e"
  by simp

lemma binade_eqI:
  assumes "2 powi e \<le> x" "x < 2 powi (e + 1)" "- 1022 \<le> e" "e \<le> 1023"
  shows "binade x = e"
proof (rule ccontr)
  assume ne: "binade x \<noteq> e"
  show False
  proof (cases "binade x < e")
    case True
    then have "x < 2 powi (binade x + 1)"
      using binade_upper assms(4) by simp
    also have "\<dots> \<le> 2 powi e"
      using True by (intro pow2_mono) simp
    finally show False using assms(1) by simp
  next
    case False
    with ne have gt: "e < binade x" by simp
    then have "2 powi (binade x) \<le> x"
      using binade_lower assms(3) by simp
    moreover have "(2::real) powi (e + 1) \<le> 2 powi (binade x)"
      using gt by (intro pow2_mono) simp
    ultimately show False using assms(2) by simp
  qed
qed

lemma binade_mono:
  assumes "x \<le> y"
  shows "binade x \<le> binade y"
proof (rule ccontr)
  assume "\<not> binade x \<le> binade y"
  then have gt: "binade y < binade x" by simp
  then have "- 1022 < binade x" "binade y < 1023"
    using binade_range(1) [of y] binade_range(2) [of x] by simp_all
  then have "2 powi (binade x) \<le> x" "y < 2 powi (binade y + 1)"
    using binade_lower binade_upper by blast+
  moreover have "(2::real) powi (binade y + 1) \<le> 2 powi (binade x)"
    using gt by (intro pow2_mono) simp
  ultimately show False using assms by simp
qed

lemma nearest_multiple_mono:
  assumes "0 < q" "x \<le> y"
  shows "q * of_int (round_even (x / q)) \<le> q * of_int (round_even (y / q))"
proof -
  have "x / q \<le> y / q" using assms by (simp add: divide_right_mono)
  then have "round_even (x / q) \<le> round_even (y / q)" by (rule round_even_mono)
  then show ?thesis using assms(1) by simp
qed

lemma nearest_multiple_fixed:
  assumes "0 < q"
  shows "q * of_int (round_even ((q * of_int k) / q)) = q * of_int k"
  using assms by (simp add: round_even_of_int)

lemma pow2_split: "(2::real) powi (e + 1) = 2 powi (e - 52) * of_int (2 ^ 53)"
proof -
  have "e + 1 = (e - 52) + 53" by simp
  then have "(2::real) powi (e + 1) = 2 powi ((e - 52) + 53)" by (rule arg_cong)
  also have "\<dots> = 2 powi (e - 52) * 2 powi 53"
    by (rule power_int_add) simp
  finally show ?thesis by simp
qed

lemma pow2_split': "(2::real) powi e = 2 powi (e - 52) * of_int (2 ^ 52)"
proof -
  have "e = (e - 52) + 52" by simp
  then have "(2::real) powi e = 2 powi ((e - 52) + 52)" by (rule arg_cong)
  also have "\<dots> = 2 powi (e - 52) * 2 powi 52"
    by (rule power_int_add) simp
  finally show ?thesis by simp
qed

text \<open>Rounding to the nearest double is monotone.\<close>

lemma fl_pos_mono:
  assumes "x \<le> y"
  shows "fl_pos x \<le> fl_pos y"
proof (cases "binade x = binade y")
  case True
  then show ?thesis
    unfolding fl_pos_def Let_def
    using nearest_multiple_mono [OF pow2_pos assms, of "binade y - 52"] by simp
next
  case False
  then have lt: "binade x < binade y"
    using binade_mono [OF assms] by simp
  define qx :: real where "qx = 2 powi (binade x - 52)"
  define qy :: real where "qy = 2 powi (binade y - 52)"
  have qpos: "0 < qx" "0 < qy" by (simp_all add: qx_def qy_def)
  have top: "2 powi (binade x + 1) = qx * of_int (2 ^ 53)"
    unfolding qx_def by (rule pow2_split)
  have bot: "2 powi (binade y) = qy * of_int (2 ^ 52)"
    unfolding qy_def by (rule pow2_split')
  have "binade x < 1023" using lt binade_range(2) [of y] by simp
  then have xle: "x \<le> qx * of_int (2 ^ 53)"
    using binade_upper [of x] top by simp
  have "- 1022 < binade y" using lt binade_range(1) [of x] by simp
  then have yge: "qy * of_int (2 ^ 52) \<le> y"
    using binade_lower [of y] bot by simp
  have "fl_pos x = qx * of_int (round_even (x / qx))"
    unfolding fl_pos_def Let_def qx_def ..
  also have "\<dots> \<le> qx * of_int (round_even ((qx * of_int (2 ^ 53)) / qx))"
    by (rule nearest_multiple_mono [OF qpos(1) xle])
  also have "\<dots> = qx * of_int (2 ^ 53)"
    by (rule nearest_multiple_fixed [OF qpos(1)])
  also have "\<dots> = 2 powi (binade x + 1)"
    by (rule top [symmetric])
  also have "\<dots> \<le> 2 powi (binade y)"
    using lt by (intro pow2_mono) simp
  also have "\<dots> = qy * of_int (2 ^ 52)"
    by (rule bot)
  also have "\<dots> = qy * of_int (round_even ((qy * of_int (2 ^ 52)) / qy))"
    by (rule nearest_multiple_fixed [OF qpos(2), symmetric])
  also have "\<dots> \<le> qy * of_int (round_even (y / qy))"
    by (rule nearest_multiple_mono [OF qpos(2) yge])
  also have "\<dots> = fl_pos y"
    unfolding fl_pos_def Let_def qy_def ..
  finally show ?thesis .
qed

lemma fl_pos_nonneg: "0 \<le> x \<Longrightarrow> 0 \<le> fl_pos x"
  unfolding fl_pos_def Let_def
  by (simp add: round_even_nonneg)

lemma fl_pos_eval:
  assumes "2 powi e \<le> x" "x < 2 powi (e + 1)" "- 1022 \<le> e" "e \<le> 1023"
  shows "fl_pos x = 2 powi (e - 52) * of_int (round_even (x / 2 powi (e - 52)))"
  unfolding fl_pos_def Let_def binade_eqI [OF assms] ..

lemma fl_pos_0: "fl_pos 0 = 0"
  by (simp add: fl_pos_def round_even_def)

lemma fl_pos_power_of_two:
  assumes "- 1022 \<le> e" "e \<le> 1023"
  shows "fl_pos (2 powi e) = 2 powi e"
proof -
  define q :: real where "q = 2 powi (e - 52)"
  have q: "0 < q" by (simp add: q_def)
  have split: "2 powi e = q * of_int (2 ^ 52)"
    unfolding q_def by (rule pow2_split')
  have "(2::real) powi e < 2 powi (e + 1)"
    by (rule power_int_strict_increasing) simp_all
  then have "fl_pos (2 powi e) = q * of_int (round_even (2 powi e / q))"
    unfolding q_def using assms by (intro fl_pos_eval) simp_all
  also have "\<dots> = q * of_int (round_even ((q * of_int (2 ^ 52)) / q))"
    using split by simp
  also have "\<dots> = q * of_int (2 ^ 52)"
    by (rule nearest_multiple_fixed [OF q])
  also have "\<dots> = 2 powi e"
    by (rule split [symmetric])
  finally show ?thesis .
qed

lemma fl_pos_upper:
  assumes "x < 2 powi (e + 1)" "- 1022 \<le> e" "e \<le> 1022"
  shows "fl_pos x \<le> 2 powi (e + 1)"
proof -
  have "fl_pos x \<le> fl_pos (2 powi (e + 1))"
    using assms(1) by (intro fl_pos_mono) simp
  also have "\<dots> = 2 powi (e + 1)"
    using assms by (intro fl_pos_power_of_two) simp_all
  finally show ?thesis .
qed

text \<open>
  The double nearest to a real whose binary exponent is known: the form in which concrete
  sums and products are evaluated.
\<close>

lemma fl_at:
  assumes "2 powi e \<le> x" "x < 2 powi (e + 1)" "- 1022 \<le> e" "e \<le> 1022"
  shows "fl x = Num (2 powi (e - 52) * of_int (round_even (x / 2 powi (e - 52))))"
proof -
  have pos: "0 \<le> x"
    using assms(1) pow2_pos [of e] by linarith
  have "fl_pos x \<le> 2 powi (e + 1)"
    using assms by (intro fl_pos_upper) simp_all
  also have "\<dots> \<le> 2 powi 1023"
    using assms(4) by (intro pow2_mono) simp
  also have "\<dots> < 2 ^ 1024" by simp
  finally have "\<not> 2 ^ 1024 \<le> fl_pos x" by simp
  moreover have "fl_pos x = 2 powi (e - 52) * of_int (round_even (x / 2 powi (e - 52)))"
    using assms by (intro fl_pos_eval) simp_all
  ultimately show ?thesis
    using pos by (simp add: fl_def)
qed

lemma fl_zero: "fl 0 = Num 0"
  by (simp add: fl_def fl_pos_0)

lemma fl_bounded:
  assumes "0 \<le> x" "x \<le> X" "fl X = Num M"
  shows "\<exists>y. fl x = Num y \<and> 0 \<le> y \<and> y \<le> M"
proof -
  have X: "0 \<le> X" using assms(1,2) by simp
  with assms(3) have M: "fl_pos X = M" "\<not> 2 ^ 1024 \<le> fl_pos X"
    by (auto simp: fl_def split: if_splits)
  have "fl_pos x \<le> fl_pos X" using assms(2) by (rule fl_pos_mono)
  moreover have "0 \<le> fl_pos x" using assms(1) by (rule fl_pos_nonneg)
  ultimately show ?thesis using assms(1) M by (simp add: fl_def)
qed

lemma decimal_literal_half: "decimal_literal (1 / 2) = Num (1 / 2)"
  unfolding decimal_literal_def by (subst fl_at [of "- 1"]) (simp_all add: round_even_def)

lemma decimal_literal_three_tenths: "decimal_literal (3 / 10) = Num (5404319552844595 / 2 ^ 54)"
  unfolding decimal_literal_def by (subst fl_at [of "- 2"]) (simp_all add: round_even_def)

lemma decimal_literal_two_tenths: "decimal_literal (1 / 5) = Num (3602879701896397 / 2 ^ 54)"
  unfolding decimal_literal_def by (subst fl_at [of "- 3"]) (simp_all add: round_even_def)

lemmas weights = decimal_literal_half decimal_literal_three_tenths decimal_literal_two_tenths

section \<open>Properties of the number rendering\<close>

text \<open>Integers up to \<open>2^53\<close> are doubles.\<close>

lemma fl_of_nat:
  assumes "m < 2 ^ 53"
  shows "fl (real m) = Num (real m)"
proof (cases "m = 0")
  case True
  then show ?thesis by (simp add: fl_zero)
next
  case False
  define x where "x = real m"
  define e where "e = binade x"
  have x1: "1 \<le> x" using False by (simp add: x_def)
  have xt: "x < 2 ^ 53" using assms unfolding x_def
    by (metis of_nat_less_iff of_nat_numeral of_nat_power)
  have "binade 1 = 0" by (rule binade_eqI) simp_all
  then have e0: "0 \<le> e" using binade_mono [OF x1] by (simp add: e_def)
  then have lo: "2 powi e \<le> x" unfolding e_def by (intro binade_lower) simp
  have "2 powi e < (2::real) powi 53" using lo xt by simp
  then have e52: "e \<le> 52"
    using pow2_mono [of 53 e] by (cases "53 \<le> e") simp_all
  then have hi: "x < 2 powi (e + 1)" unfolding e_def by (intro binade_upper) simp
  define k where "k = nat (52 - e)"
  have q: "2 powi (e - 52) = 1 / (2::real) ^ k"
    using e52 by (simp add: k_def power_int_def nat_diff_distrib' field_simps)
  have "x / 2 powi (e - 52) = of_int (int (m * 2 ^ k))"
    by (simp add: q x_def)
  then have "round_even (x / 2 powi (e - 52)) = int (m * 2 ^ k)"
    by (simp only: round_even_of_int)
  then have "2 powi (e - 52) * of_int (round_even (x / 2 powi (e - 52))) = x"
    by (simp add: q x_def)
  moreover have "fl x = Num (2 powi (e - 52) * of_int (round_even (x / 2 powi (e - 52))))"
    using lo hi e0 e52 by (intro fl_at) simp_all
  ultimately show ?thesis by (simp add: x_def)
qed

lemma fl_two_53: "fl (2 ^ 53) = Num (2 ^ 53)"
  by (simp add: fl_at [of 53] round_even_def)

lemma fl_of_nat_le:
  assumes "m \<le> 2 ^ 53"
  shows "fl (real m) = Num (real m)"
proof (cases "m = 2 ^ 53")
  case True
  then show ?thesis using fl_two_53 by simp
next
  case False
  then show ?thesis using assms by (intro fl_of_nat) simp
qed

lemma fl_above_nat:
  assumes "m < 2 ^ 53" "real m < y"  "of_int \<lfloor>y\<rfloor> = y"
  shows "fl y \<noteq> Num (real m)"
proof
  assume eq: "fl y = Num (real m)"
  have "real (Suc m) \<le> y"
  proof -
    have "int m < \<lfloor>y\<rfloor>" using assms(2,3) by linarith
    then have "real_of_int (int m + 1) \<le> of_int \<lfloor>y\<rfloor>" by (simp only: of_int_le_iff)
    then show ?thesis using assms(3) by simp
  qed
  then obtain z where "fl (real (Suc m)) = Num z" "z \<le> real m"
    using fl_bounded [OF _ _ eq, of "real (Suc m)"] by auto
  moreover have "fl (real (Suc m)) = Num (real (Suc m))"
    using assms(1) by (intro fl_of_nat_le) simp
  ultimately show False by simp
qed

lemma shortest_from_small:
  assumes "m < 2 ^ 53"
  shows "shortest_from j m = m"
proof (induction j)
  case 0
  show ?case by simp
next
  case (Suc j)
  define unit :: nat where "unit = 10 ^ Suc j"
  define lo where "lo = (m div unit) * unit"
  define hi where "hi = lo + unit"
  have upos: "0 < unit" by (simp add: unit_def)
  have lo_le: "lo \<le> m" by (simp add: lo_def)
  have hi_gt: "m < hi" unfolding hi_def lo_def using upos
    by (metis add.commute div_mult_mod_eq add_strict_left_mono mod_less_divisor mult.commute)
  have lo_ok: "fl (real lo) = Num (real m) \<longleftrightarrow> lo = m"
    using fl_of_nat [of lo] lo_le assms by simp
  have hi_ok: "fl (real hi) \<noteq> Num (real m)"
    using assms by (rule fl_above_nat) (use hi_gt in simp_all)
  have "shortest_from (Suc j) m = (if lo = m then lo else shortest_from j m)"
    unfolding shortest_from.simps Let_def unit_def [symmetric] lo_def [symmetric]
      hi_def [symmetric]
    by (simp only: lo_ok hi_ok simp_thms if_False if_True)
  then show ?case using Suc.IH by simp
qed

lemma shortest_decimal_small: "m < 2 ^ 53 \<Longrightarrow> shortest_decimal m = m"
  by (simp add: shortest_decimal_def shortest_from_small)

text \<open>Below \<open>2^53\<close> every digit is printed.\<close>

lemma integer_to_string_small:
  assumes "\<bar>i\<bar> < 2 ^ 53"
  shows "integer_to_string i = (if i < 0 then ''-'' else []) @ nat_to_string (nat \<bar>i\<bar>)"
proof -
  have "nat \<bar>i\<bar> < 2 ^ 53" using assms by (simp add: nat_less_iff)
  moreover have "\<bar>i\<bar> < 10 ^ 21" using assms by simp
  ultimately show ?thesis
    by (simp add: integer_to_string_def shortest_decimal_small)
qed

text \<open>Above \<open>2^53\<close> fewer digits are printed: \<open>String(2 ** 60)\<close> is 1152921504606847000.\<close>

lemma shortest_decimal_two_60: "shortest_decimal 1152921504606846976 = 1152921504606847000"
  by (simp add: shortest_decimal_def nat_to_string.simps digit_def Let_def
      fl_at [of 59] fl_at [of 60] round_even_def)

lemma integer_to_string_two_60: "integer_to_string (2 ^ 60) = ''1152921504606847000''"
  by (simp add: integer_to_string_def shortest_decimal_two_60 nat_to_string.simps digit_def)

section \<open>Properties of the normalizer\<close>

lemma normalizeScore_Num: "normalizeScore (JNumber (Num s)) = Inr (Num (min 100 (max 0 s)))"
  by (simp add: normalizeScore_def)



text \<open>
  C6. \<open>normalizeScore\<close> is \<open>min(100, max(0, s))\<close> on every real \<open>s\<close>: the result lies in
  [0,100], a score already in [0,100] is returned unchanged, \<open>normalize(-5) = 0\<close> and
  \<open>normalize(150) = 100\<close>. On a Number it never throws.
\<close>

theorem normalizeScore_clamp:
  "normalizeScore (JNumber (Num s)) = Inr (Num (min 100 (max 0 s)))
   \<and> (\<exists>r. normalizeScore (JNumber (Num s)) = Inr (Num r) \<and> 0 \<le> r \<and> r \<le> 100)
   \<and> (0 \<le> s \<and> s \<le> 100 \<longrightarrow> normalizeScore (JNumber (Num s)) = Inr (Num s))
   \<and> normalizeScore (JNumber (Num (- 5))) = Inr (Num 0)
   \<and> normalizeScore (JNumber (Num 150)) = Inr (Num 100)"
  by (simp add: normalizeScore_Num)

theorem normalizeScore_clamp_witness:
  "(0::real) \<le> 50 \<and> (50::real) \<le> 100 \<and> normalizeScore (JNumber (Num 50)) = Inr (Num 50)"
  using normalizeScore_clamp [of 50] by simp

section \<open>Properties of the classifier\<close>

text \<open>
  C3. The classifier maps a score to five tiers with inclusive lower bounds: 80 is
  CRITICAL, 79 and 60 are HIGH, 59 and 40 are MEDIUM, 39 and 20 are LOW, 19 and 0 are SAFE;
  in general a score of at least 80 is CRITICAL, from 60 up to 80 HIGH, from 40 up to 60
  MEDIUM, from 20 up to 40 LOW, and below 20 SAFE.
\<close>

theorem getRiskLevel_tiers:
  "getRiskLevel (Num 80) = ''CRITICAL'' \<and> getRiskLevel (Num 79) = ''HIGH''
   \<and> getRiskLevel (Num 60) = ''HIGH'' \<and> getRiskLevel (Num 59) = ''MEDIUM''
   \<and> getRiskLevel (Num 40) = ''MEDIUM'' \<and> getRiskLevel (Num 39) = ''LOW''
   \<and> getRiskLevel (Num 20) = ''LOW'' \<and> getRiskLevel (Num 19) = ''SAFE''
   \<and> getRiskLevel (Num 0) = ''SAFE''
   \<and> (80 \<le> a \<longrightarrow> getRiskLevel (Num a) = ''CRITICAL'')
   \<and> (60 \<le> b \<and> b < 80 \<longrightarrow> getRiskLevel (Num b) = ''HIGH'')
   \<and> (40 \<le> c \<and> c < 60 \<longrightarrow> getRiskLevel (Num c) = ''MEDIUM'')
   \<and> (20 \<le> d \<and> d < 40 \<longrightarrow> getRiskLevel (Num d) = ''LOW'')
   \<and> (e < 20 \<longrightarrow> getRiskLevel (Num e) = ''SAFE'')"
  by (simp add: getRiskLevel_def)

theorem getRiskLevel_tiers_witness:
  "getRiskLevel (Num 95) = ''CRITICAL'' \<and> getRiskLevel (Num 75) = ''HIGH''
   \<and> getRiskLevel (Num 55) = ''MEDIUM'' \<and> getRiskLevel (Num 35) = ''LOW''
   \<and> getRiskLevel (Num 10) = ''SAFE''"
  using getRiskLevel_tiers [of 95 75 55 35 10] by simp

section \<open>Properties of the orchestrator\<close>

lemma settle_all_fulfilled:
  "(\<And>i. i < length ps \<Longrightarrow> \<exists>v. ps ! i = Inr v) \<Longrightarrow> settle_all ps order = Inr (fulfilled_values ps)"
proof (induction order)
  case Nil
  then show ?case by simp
next
  case (Cons i rest)
  then show ?case by (cases "i < length ps") fastforce+
qed

lemma settle_all_rejection_source:
  "settle_all ps order = Inl e \<Longrightarrow> \<exists>i < length ps. ps ! i = Inl e"
proof (induction order)
  case Nil
  then show ?case by simp
next
  case (Cons i rest)
  then show ?case by (auto split: if_splits sum.splits)
qed

lemma settle_all_rejects:
  "i \<in> set order \<Longrightarrow> i < length ps \<Longrightarrow> ps ! i = Inl e \<Longrightarrow> \<exists>e'. settle_all ps order = Inl e'"
proof (induction order)
  case Nil
  then show ?case by simp
next
  case (Cons j rest)
  then show ?case by (auto split: sum.splits)
qed

lemma Promise_all_fulfilled3:
  "Promise_all order [Inr a, Inr b, Inr c] = Inr [a, b, c]"
proof -
  have "settle_all [Inr a, Inr b, Inr c] (order @ [0..<length [Inr a, Inr b, Inr c]])
          = Inr (fulfilled_values [Inr a, Inr b, Inr c :: js_error + 'a])"
  proof (rule settle_all_fulfilled)
    fix i assume "i < length [Inr a, Inr b, Inr c :: js_error + 'a]"
    then have "i = 0 \<or> i = 1 \<or> i = 2" by auto
    then show "\<exists>v. [Inr a, Inr b, Inr c :: js_error + 'a] ! i = Inr v" by auto
  qed
  then show ?thesis
    by (simp add: Promise_all_def fulfilled_values_def List.map_filter_simps)
qed

lemma Promise_all_rejected:
  assumes "i < length ps" "ps ! i = Inl e"
  shows "\<exists>j e'. j < length ps \<and> ps ! j = Inl e' \<and> Promise_all order ps = Inl e'"
proof -
  have "i \<in> set (order @ [0..<length ps])" using assms(1) by simp
  then obtain e' where e': "settle_all ps (order @ [0..<length ps]) = Inl e'"
    using settle_all_rejects assms by blast
  then obtain j where "j < length ps" "ps ! j = Inl e'"
    using settle_all_rejection_source by blast
  with e' show ?thesis by (auto simp: Promise_all_def)
qed

lemma analyzeToken_success:
  assumes "getTokenInfo this tokenMint = Inr (Some tokenInfo)"
    and "analyzeTokenEconomics this tokenMint = Inr a"
    and "analyzeSocialSignals this tokenMint = Inr b"
    and "analyzeCode this tokenMint = Inr c"
    and "calculateRiskScore a b c = Inr riskScore"
  shows "analyzeToken this order now tokenMint =
           ([GetTokenInfo, AnalyzeTokenEconomics, AnalyzeSocialSignals, AnalyzeCode],
            Inr (compile_report tokenInfo tokenMint now riskScore a b c))"
  using assms by (simp add: analyzeToken_def analyzeToken_try_def Promise_all_fulfilled3)

lemma mock_success:
  assumes "calculateRiskScore a b c = Inr riskScore"
  shows "analyzeToken (mock_collaborators (Inr (Some info)) (Inr a) (Inr b) (Inr c))
           order now tokenMint
         = ([GetTokenInfo, AnalyzeTokenEconomics, AnalyzeSocialSignals, AnalyzeCode],
            Inr (compile_report info tokenMint now riskScore a b c))"
  by (rule analyzeToken_success) (simp_all add: mock_collaborators_def assms)

text \<open>
  What does hold of the failure paths. A token info of \<open>null\<close> fails with the error
  "Token not found or invalid" before any sub-analyzer is called. When a sub-analyzer
  rejects, \<open>analyzeToken\<close> rejects with what the \<open>catch\<close> block makes of the reason of a
  rejecting sub-analyzer: the reason itself unless it is \<open>undefined\<close> or \<open>null\<close>.
\<close>

lemma analyzeToken_not_found:
  "getTokenInfo this tokenMint = Inr None \<Longrightarrow>
     analyzeToken this order now tokenMint
       = ([GetTokenInfo], Inl (Error ''Token not found or invalid''))"
  by (simp add: analyzeToken_def analyzeToken_try_def)

lemma analyzeToken_rejected:
  assumes "getTokenInfo this tokenMint = Inr (Some tokenInfo)"
    and "analyzeTokenEconomics this tokenMint = Inl e
         \<or> analyzeSocialSignals this tokenMint = Inl e
         \<or> analyzeCode this tokenMint = Inl e"
  shows "\<exists>e'. analyzeToken this order now tokenMint =
           ([GetTokenInfo, AnalyzeTokenEconomics, AnalyzeSocialSignals, AnalyzeCode],
            Inl (catch_block e'))
         \<and> (analyzeTokenEconomics this tokenMint = Inl e'
            \<or> analyzeSocialSignals this tokenMint = Inl e'
            \<or> analyzeCode this tokenMint = Inl e')"
proof -
  let ?ps = "[analyzeTokenEconomics this tokenMint, analyzeSocialSignals this tokenMint,
              analyzeCode this tokenMint]"
  from assms(2) obtain i where "i < length ?ps" "?ps ! i = Inl e"
    by (metis (no_types, lifting) length_Cons list.size(3) nth_Cons_0 nth_Cons_Suc zero_less_Suc
        Suc_less_eq)
  then obtain j e' where j: "j < length ?ps" "?ps ! j = Inl e'" "Promise_all order ?ps = Inl e'"
    using Promise_all_rejected by blast
  from j(1) have "j = 0 \<or> j = 1 \<or> j = 2" by auto
  with j(2) have "analyzeTokenEconomics this tokenMint = Inl e'
            \<or> analyzeSocialSignals this tokenMint = Inl e'
            \<or> analyzeCode this tokenMint = Inl e'" by auto
  moreover have "analyzeToken this order now tokenMint =
           ([GetTokenInfo, AnalyzeTokenEconomics, AnalyzeSocialSignals, AnalyzeCode],
            Inl (catch_block e'))"
    using assms(1) j(3) by (simp add: analyzeToken_def analyzeToken_try_def)
  ultimately show ?thesis by blast
qed

section \<open>Properties of the aggregator\<close>

lemma weights_literal:
  "decimal_literal 0.5 = Num (1 / 2)"
  "decimal_literal 0.3 = Num (5404319552844595 / 2 ^ 54)"
  "decimal_literal 0.2 = Num (3602879701896397 / 2 ^ 54)"
  by (simp_all add: weights)

lemma normalize_or_zero_number:
  "\<exists>r. normalizeScore (js_or (JNumber x) (JNumber (Num 0))) = Inr (Num r) \<and> 0 \<le> r \<and> r \<le> 100"
  by (cases x) (simp_all add: normalizeScore_def js_or_def)

lemma fl_50: "fl 50 = Num 50"
  by (subst fl_at [of 5]) (simp_all add: round_even_def)

lemma fl_80: "fl 80 = Num 80"
  by (subst fl_at [of 6]) (simp_all add: round_even_def)

lemma fl_100: "fl 100 = Num 100"
  by (subst fl_at [of 6]) (simp_all add: round_even_def)

lemma fl_social_top: "fl (100 * (5404319552844595 / 2 ^ 54)) = Num 30"
  by (subst fl_at [of 4]) (simp_all add: round_even_def)

lemma fl_code_top: "fl (100 * (3602879701896397 / 2 ^ 54)) = Num 20"
  by (subst fl_at [of 4]) (simp_all add: round_even_def)

text \<open>The weighted sum of three scores in [0,100], as the doubles compute it.\<close>

lemma weighted_sum_bounded:
  assumes "0 \<le> p" "p \<le> 100" "0 \<le> q" "q \<le> 100" "0 \<le> r" "r \<le> 100"
  shows "\<exists>s. js_add (js_add (js_mul (Num p) (decimal_literal 0.5))
                               (js_mul (Num q) (decimal_literal 0.3)))
                       (js_mul (Num r) (decimal_literal 0.2)) = Num s
             \<and> 0 \<le> s \<and> s \<le> 100"
proof -
  obtain a where a: "fl (p * (1 / 2)) = Num a" "0 \<le> a" "a \<le> 50"
    using fl_bounded [of "p * (1 / 2)" 50 50] fl_50 assms(1,2) by auto
  obtain b where b: "fl (q * (5404319552844595 / 2 ^ 54)) = Num b" "0 \<le> b" "b \<le> 30"
    using fl_bounded [of "q * (5404319552844595 / 2 ^ 54)" "100 * (5404319552844595 / 2 ^ 54)" 30]
      fl_social_top assms(3,4) by auto
  obtain c where c: "fl (r * (3602879701896397 / 2 ^ 54)) = Num c" "0 \<le> c" "c \<le> 20"
    using fl_bounded [of "r * (3602879701896397 / 2 ^ 54)" "100 * (3602879701896397 / 2 ^ 54)" 20]
      fl_code_top assms(5,6) by auto
  obtain u where u: "fl (a + b) = Num u" "0 \<le> u" "u \<le> 80"
    using fl_bounded [of "a + b" 80 80] fl_80 a(2,3) b(2,3) by auto
  obtain s where s: "fl (u + c) = Num s" "0 \<le> s" "s \<le> 100"
    using fl_bounded [of "u + c" 100 100] fl_100 u(2,3) c(2,3) by auto
  have "js_add (js_add (js_mul (Num p) (decimal_literal 0.5))
                       (js_mul (Num q) (decimal_literal 0.3)))
               (js_mul (Num r) (decimal_literal 0.2)) = Num s"
    by (simp only: weights_literal js_mul.simps js_add.simps a(1) b(1) c(1) u(1) s(1))
  with s(2,3) show ?thesis by blast
qed

lemma calculateRiskScore_Num:
  assumes "normalizeScore (js_or (sub_riskScore onChain) (JNumber (Num 0))) = Inr p"
    and "normalizeScore (js_or (sub_riskScore social) (JNumber (Num 0))) = Inr q"
    and "normalizeScore (js_or (sub_riskScore code) (JNumber (Num 0))) = Inr r"
  shows "calculateRiskScore onChain social code
         = Inr (js_add (js_add (js_mul p (decimal_literal 0.5)) (js_mul q (decimal_literal 0.3)))
                       (js_mul r (decimal_literal 0.2)))"
  using assms by (simp add: calculateRiskScore_def)

lemma round_half_up_bounds:
  fixes v :: real
  assumes "0 \<le> v" "v \<le> 100"
  shows "0 \<le> \<lfloor>v + 1 / 2\<rfloor>" and "\<lfloor>v + 1 / 2\<rfloor> \<le> 100"
  using assms by (auto simp: floor_le_iff)

lemma report_riskScore_compile:
  "report_riskScore (compile_report tokenInfo tokenMint now riskScore a b c)
     = Math_round riskScore"
  by (simp add: compile_report_def Let_def)

lemma report_riskLevel_compile:
  "report_riskLevel (compile_report tokenInfo tokenMint now riskScore a b c)
     = getRiskLevel riskScore"
  by (simp add: compile_report_def Let_def)

lemma report_summary_compile:
  "report_summary (compile_report tokenInfo tokenMint now riskScore a b c)
     = generateSummary riskScore a b c"
  by (simp add: compile_report_def Let_def)

lemma calculateRiskScore_number_scores:
  "\<exists>s. calculateRiskScore \<lparr>sub_riskScore = JNumber x, sub_redFlags = fx\<rparr>
                           \<lparr>sub_riskScore = JNumber y, sub_redFlags = fy\<rparr>
                           \<lparr>sub_riskScore = JNumber z, sub_redFlags = fz\<rparr> = Inr (Num s)
       \<and> 0 \<le> s \<and> s \<le> 100"
proof -
  obtain p where p: "normalizeScore (js_or (JNumber x) (JNumber (Num 0))) = Inr (Num p)"
      "0 \<le> p" "p \<le> 100"
    using normalize_or_zero_number by blast
  obtain q where q: "normalizeScore (js_or (JNumber y) (JNumber (Num 0))) = Inr (Num q)"
      "0 \<le> q" "q \<le> 100"
    using normalize_or_zero_number by blast
  obtain r where r: "normalizeScore (js_or (JNumber z) (JNumber (Num 0))) = Inr (Num r)"
      "0 \<le> r" "r \<le> 100"
    using normalize_or_zero_number by blast
  obtain s where s: "js_add (js_add (js_mul (Num p) (decimal_literal 0.5))
                               (js_mul (Num q) (decimal_literal 0.3)))
                       (js_mul (Num r) (decimal_literal 0.2)) = Num s" "0 \<le> s" "s \<le> 100"
    using weighted_sum_bounded [OF p(2,3) q(2,3) r(2,3)] by blast
  have "calculateRiskScore \<lparr>sub_riskScore = JNumber x, sub_redFlags = fx\<rparr>
                           \<lparr>sub_riskScore = JNumber y, sub_redFlags = fy\<rparr>
                           \<lparr>sub_riskScore = JNumber z, sub_redFlags = fz\<rparr> = Inr (Num s)"
    using calculateRiskScore_Num
      [of "\<lparr>sub_riskScore = JNumber x, sub_redFlags = fx\<rparr>" "Num p"
          "\<lparr>sub_riskScore = JNumber y, sub_redFlags = fy\<rparr>" "Num q"
          "\<lparr>sub_riskScore = JNumber z, sub_redFlags = fz\<rparr>" "Num r"]
      p(1) q(1) r(1) s(1) by simp
  with s(2,3) show ?thesis by blast
qed

text \<open>Evaluation of the aggregation on concrete Number scores.\<close>

lemma calculateRiskScore_reals:
  "calculateRiskScore \<lparr>sub_riskScore = JNumber (Num a), sub_redFlags = fx\<rparr>
                      \<lparr>sub_riskScore = JNumber (Num b), sub_redFlags = fy\<rparr>
                      \<lparr>sub_riskScore = JNumber (Num c), sub_redFlags = fz\<rparr>
   = Inr (js_add (js_add (fl (min 100 (max 0 a) * (1 / 2)))
                         (fl (min 100 (max 0 b) * (5404319552844595 / 2 ^ 54))))
                 (fl (min 100 (max 0 c) * (3602879701896397 / 2 ^ 54))))"
proof -
  have n: "normalizeScore (js_or (JNumber (Num v)) (JNumber (Num 0)))
           = Inr (Num (min 100 (max 0 v)))" for v
    by (simp add: normalizeScore_def js_or_def)
  show ?thesis
    by (simp add: calculateRiskScore_def n weights)
qed

lemmas fl_exponents =
  fl_zero fl_at [of 6] fl_at [of 5] fl_at [of 4] fl_at [of 3] fl_at [of 2] fl_at [of 1]
  fl_at [of 0] fl_at [of "- 1"] fl_at [of "- 2"] fl_at [of "- 3"] fl_at [of "- 4"] round_even_def

lemma weights_sum:
  "js_add (js_add (decimal_literal 0.5) (decimal_literal 0.3)) (decimal_literal 0.2) = Num 1"
  by (simp add: weights fl_exponents)

text \<open>
  C2. Whatever Numbers the three sub-scores are (negative, above 100, \<open>NaN\<close> or infinite),
  each is normalized to a score in [0,100]; the weighted sum of the three normalized
  scores, every product and sum rounded to a double as the engine computes it, is the
  value \<open>calculateRiskScore\<close> returns and lies in [0,100]; so does the rounded score
  that the report stores. The three weights add up to 1.
\<close>

theorem composite_score_in_range:
  "\<exists>p q r s k.
      normalizeScore (js_or (JNumber x) (JNumber (Num 0))) = Inr (Num p) \<and> 0 \<le> p \<and> p \<le> 100
    \<and> normalizeScore (js_or (JNumber y) (JNumber (Num 0))) = Inr (Num q) \<and> 0 \<le> q \<and> q \<le> 100
    \<and> normalizeScore (js_or (JNumber z) (JNumber (Num 0))) = Inr (Num r) \<and> 0 \<le> r \<and> r \<le> 100
    \<and> js_add (js_add (js_mul (Num p) (decimal_literal 0.5))
                       (js_mul (Num q) (decimal_literal 0.3)))
               (js_mul (Num r) (decimal_literal 0.2)) = Num s
    \<and> js_add (js_add (decimal_literal 0.5) (decimal_literal 0.3)) (decimal_literal 0.2) = Num 1
    \<and> calculateRiskScore \<lparr>sub_riskScore = JNumber x, sub_redFlags = fx\<rparr>
                           \<lparr>sub_riskScore = JNumber y, sub_redFlags = fy\<rparr>
                           \<lparr>sub_riskScore = JNumber z, sub_redFlags = fz\<rparr> = Inr (Num s)
    \<and> 0 \<le> s \<and> s \<le> 100
    \<and> report_riskScore (compile_report tokenInfo tokenMint now (Num s)
                           \<lparr>sub_riskScore = JNumber x, sub_redFlags = fx\<rparr>
                           \<lparr>sub_riskScore = JNumber y, sub_redFlags = fy\<rparr>
                           \<lparr>sub_riskScore = JNumber z, sub_redFlags = fz\<rparr>) = Num (of_int k)
    \<and> 0 \<le> k \<and> k \<le> 100"
proof -
  obtain p where p: "normalizeScore (js_or (JNumber x) (JNumber (Num 0))) = Inr (Num p)"
      "0 \<le> p" "p \<le> 100"
    using normalize_or_zero_number by blast
  obtain q where q: "normalizeScore (js_or (JNumber y) (JNumber (Num 0))) = Inr (Num q)"
      "0 \<le> q" "q \<le> 100"
    using normalize_or_zero_number by blast
  obtain r where r: "normalizeScore (js_or (JNumber z) (JNumber (Num 0))) = Inr (Num r)"
      "0 \<le> r" "r \<le> 100"
    using normalize_or_zero_number by blast
  obtain s where s: "js_add (js_add (js_mul (Num p) (decimal_literal 0.5))
                               (js_mul (Num q) (decimal_literal 0.3)))
                       (js_mul (Num r) (decimal_literal 0.2)) = Num s" "0 \<le> s" "s \<le> 100"
    using weighted_sum_bounded [OF p(2,3) q(2,3) r(2,3)] by blast
  have c: "calculateRiskScore \<lparr>sub_riskScore = JNumber x, sub_redFlags = fx\<rparr>
                           \<lparr>sub_riskScore = JNumber y, sub_redFlags = fy\<rparr>
                           \<lparr>sub_riskScore = JNumber z, sub_redFlags = fz\<rparr> = Inr (Num s)"
    using calculateRiskScore_Num
      [of "\<lparr>sub_riskScore = JNumber x, sub_redFlags = fx\<rparr>" "Num p"
          "\<lparr>sub_riskScore = JNumber y, sub_redFlags = fy\<rparr>" "Num q"
          "\<lparr>sub_riskScore = JNumber z, sub_redFlags = fz\<rparr>" "Num r"]
      p(1) q(1) r(1) s(1) by simp
  have k: "0 \<le> \<lfloor>s + 1 / 2\<rfloor>" "\<lfloor>s + 1 / 2\<rfloor> \<le> 100"
    using round_half_up_bounds s(2,3) by blast+
  have rep: "report_riskScore (compile_report tokenInfo tokenMint now (Num s)
                           \<lparr>sub_riskScore = JNumber x, sub_redFlags = fx\<rparr>
                           \<lparr>sub_riskScore = JNumber y, sub_redFlags = fy\<rparr>
                           \<lparr>sub_riskScore = JNumber z, sub_redFlags = fz\<rparr>)
             = Num (of_int \<lfloor>s + 1 / 2\<rfloor>)"
    by (simp add: report_riskScore_compile)
  show ?thesis
    using p q r s c k rep weights_sum by blast
qed

theorem composite_score_in_range_witness:
  "calculateRiskScore \<lparr>sub_riskScore = JNumber (Num 150), sub_redFlags = None\<rparr>
                      \<lparr>sub_riskScore = JNumber (Num (- 10)), sub_redFlags = None\<rparr>
                      \<lparr>sub_riskScore = JNumber (Num 75), sub_redFlags = None\<rparr> = Inr (Num 65)
   \<and> calculateRiskScore \<lparr>sub_riskScore = JNumber (Num 100), sub_redFlags = None\<rparr>
                      \<lparr>sub_riskScore = JNumber (Num 100), sub_redFlags = None\<rparr>
                      \<lparr>sub_riskScore = JNumber (Num 100), sub_redFlags = None\<rparr> = Inr (Num 100)"
  using composite_score_in_range [of "Num 150" "Num (- 10)" "Num 75" None None None]
  by (simp add: calculateRiskScore_reals fl_exponents)

lemma js_or_zero_number:
  "x \<noteq> NaN \<Longrightarrow> normalizeScore (js_or (JNumber x) (JNumber (Num 0)))
                 = Inr (Math_min (Num 100) (Math_max (Num 0) x))"
  by (cases x) (simp_all add: normalizeScore_def js_or_def)

lemma round_half_up_nearest:
  fixes v :: real
  shows "of_int \<lfloor>v + 1 / 2\<rfloor> - 1 / 2 \<le> v" and "v < of_int \<lfloor>v + 1 / 2\<rfloor> + 1 / 2"
  by linarith+

text \<open>
  C1, as stated, fails: \<open>calculateRiskScore\<close> returns the weighted sum unrounded. For the
  sub-scores 1, 0, 0 it returns 0.5, where the rounded sum of the claim is 1.
\<close>

theorem calculateRiskScore_not_rounded:
  "calculateRiskScore \<lparr>sub_riskScore = JNumber (Num 1), sub_redFlags = None\<rparr>
                      \<lparr>sub_riskScore = JNumber (Num 0), sub_redFlags = None\<rparr>
                      \<lparr>sub_riskScore = JNumber (Num 0), sub_redFlags = None\<rparr> = Inr (Num (1 / 2))
   \<and> spec_aggregate \<lparr>sub_riskScore = JNumber (Num 1), sub_redFlags = None\<rparr>
                      \<lparr>sub_riskScore = JNumber (Num 0), sub_redFlags = None\<rparr>
                      \<lparr>sub_riskScore = JNumber (Num 0), sub_redFlags = None\<rparr> = Inr (Num 1)"
  by (simp add: calculateRiskScore_reals spec_aggregate_def normalizeScore_def weights
      fl_exponents)

text \<open>
  C1, amended. For Number sub-scores other than \<open>NaN\<close>, \<open>calculateRiskScore\<close> returns the
  weighted sum of the normalized scores, unrounded, each product and sum being the double
  the engine computes; the claim's rounded value is \<open>Math.round\<close> of that result. The
  rounding is done by \<open>analyzeToken\<close>: for all Number sub-scores the report of a
  successful run stores the integer nearest to the returned sum, a tie going up. For the
  sub-scores 100, 50, 25 the sum and the stored score are both 70.
\<close>

theorem report_riskScore_rounds_weighted_sum:
  "(x \<noteq> NaN \<and> y \<noteq> NaN \<and> z \<noteq> NaN \<longrightarrow>
      calculateRiskScore \<lparr>sub_riskScore = JNumber x, sub_redFlags = fx\<rparr>
                         \<lparr>sub_riskScore = JNumber y, sub_redFlags = fy\<rparr>
                         \<lparr>sub_riskScore = JNumber z, sub_redFlags = fz\<rparr>
        = Inr (js_add (js_add (js_mul (Math_min (Num 100) (Math_max (Num 0) x))
                                      (decimal_literal 0.5))
                              (js_mul (Math_min (Num 100) (Math_max (Num 0) y))
                                      (decimal_literal 0.3)))
                      (js_mul (Math_min (Num 100) (Math_max (Num 0) z))
                              (decimal_literal 0.2)))
      \<and> spec_aggregate \<lparr>sub_riskScore = JNumber x, sub_redFlags = fx\<rparr>
                       \<lparr>sub_riskScore = JNumber y, sub_redFlags = fy\<rparr>
                       \<lparr>sub_riskScore = JNumber z, sub_redFlags = fz\<rparr>
        = Inr (Math_round
                (js_add (js_add (js_mul (Math_min (Num 100) (Math_max (Num 0) x))
                                        (decimal_literal 0.5))
                                (js_mul (Math_min (Num 100) (Math_max (Num 0) y))
                                        (decimal_literal 0.3)))
                        (js_mul (Math_min (Num 100) (Math_max (Num 0) z))
                                (decimal_literal 0.2)))))
   \<and> (\<exists>s k.
          calculateRiskScore \<lparr>sub_riskScore = JNumber x, sub_redFlags = fx\<rparr>
                             \<lparr>sub_riskScore = JNumber y, sub_redFlags = fy\<rparr>
                             \<lparr>sub_riskScore = JNumber z, sub_redFlags = fz\<rparr> = Inr (Num s)
        \<and> snd (analyzeToken
                 (mock_collaborators (Inr (Some tokenInfo))
                    (Inr \<lparr>sub_riskScore = JNumber x, sub_redFlags = fx\<rparr>)
                    (Inr \<lparr>sub_riskScore = JNumber y, sub_redFlags = fy\<rparr>)
                    (Inr \<lparr>sub_riskScore = JNumber z, sub_redFlags = fz\<rparr>))
                 order now tokenMint)
            = Inr (compile_report tokenInfo tokenMint now (Num s)
                     \<lparr>sub_riskScore = JNumber x, sub_redFlags = fx\<rparr>
                     \<lparr>sub_riskScore = JNumber y, sub_redFlags = fy\<rparr>
                     \<lparr>sub_riskScore = JNumber z, sub_redFlags = fz\<rparr>)
        \<and> report_riskScore (compile_report tokenInfo tokenMint now (Num s)
                     \<lparr>sub_riskScore = JNumber x, sub_redFlags = fx\<rparr>
                     \<lparr>sub_riskScore = JNumber y, sub_redFlags = fy\<rparr>
                     \<lparr>sub_riskScore = JNumber z, sub_redFlags = fz\<rparr>) = Num (of_int k)
        \<and> of_int k - 1 / 2 \<le> s \<and> s < of_int k + 1 / 2)
   \<and> calculateRiskScore \<lparr>sub_riskScore = JNumber (Num 100), sub_redFlags = fx\<rparr>
                         \<lparr>sub_riskScore = JNumber (Num 50), sub_redFlags = fy\<rparr>
                         \<lparr>sub_riskScore = JNumber (Num 25), sub_redFlags = fz\<rparr> = Inr (Num 70)
   \<and> report_riskScore (compile_report tokenInfo tokenMint now (Num 70)
                         \<lparr>sub_riskScore = JNumber (Num 100), sub_redFlags = fx\<rparr>
                         \<lparr>sub_riskScore = JNumber (Num 50), sub_redFlags = fy\<rparr>
                         \<lparr>sub_riskScore = JNumber (Num 25), sub_redFlags = fz\<rparr>) = Num 70"
  (is "(?n \<longrightarrow> ?sum \<and> ?spec) \<and> ?round \<and> ?ex1 \<and> ?ex2")
proof (intro conjI impI)
  assume n: ?n
  then show ?sum
    by (simp add: calculateRiskScore_def js_or_zero_number)
  from n show ?spec
    by (cases x; cases y; cases z) (simp_all add: spec_aggregate_def normalizeScore_def)
next
  obtain s where s: "calculateRiskScore \<lparr>sub_riskScore = JNumber x, sub_redFlags = fx\<rparr>
                             \<lparr>sub_riskScore = JNumber y, sub_redFlags = fy\<rparr>
                             \<lparr>sub_riskScore = JNumber z, sub_redFlags = fz\<rparr> = Inr (Num s)"
    using calculateRiskScore_number_scores [of x fx y fy z fz] by blast
  have run: "snd (analyzeToken
                 (mock_collaborators (Inr (Some tokenInfo))
                    (Inr \<lparr>sub_riskScore = JNumber x, sub_redFlags = fx\<rparr>)
                    (Inr \<lparr>sub_riskScore = JNumber y, sub_redFlags = fy\<rparr>)
                    (Inr \<lparr>sub_riskScore = JNumber z, sub_redFlags = fz\<rparr>))
                 order now tokenMint)
            = Inr (compile_report tokenInfo tokenMint now (Num s)
                     \<lparr>sub_riskScore = JNumber x, sub_redFlags = fx\<rparr>
                     \<lparr>sub_riskScore = JNumber y, sub_redFlags = fy\<rparr>
                     \<lparr>sub_riskScore = JNumber z, sub_redFlags = fz\<rparr>)"
    by (simp add: mock_success [OF s])
  have rep: "report_riskScore (compile_report tokenInfo tokenMint now (Num s)
                     \<lparr>sub_riskScore = JNumber x, sub_redFlags = fx\<rparr>
                     \<lparr>sub_riskScore = JNumber y, sub_redFlags = fy\<rparr>
                     \<lparr>sub_riskScore = JNumber z, sub_redFlags = fz\<rparr>)
             = Num (of_int \<lfloor>s + 1 / 2\<rfloor>)"
    by (simp add: report_riskScore_compile)
  show ?round
    using s run rep round_half_up_nearest [of s] by blast
next
  show ?ex1
    by (simp add: calculateRiskScore_reals fl_exponents)
  show ?ex2
    by (simp add: report_riskScore_compile)
qed

text \<open>
  The sub-scores 0, 31, 1: the doubles sum to 9.499999999999998, below the exact 9.5, and
  the report stores 9.
\<close>

theorem report_riskScore_rounds_weighted_sum_witness:
  "calculateRiskScore \<lparr>sub_riskScore = JNumber (Num 0), sub_redFlags = None\<rparr>
                      \<lparr>sub_riskScore = JNumber (Num 31), sub_redFlags = None\<rparr>
                      \<lparr>sub_riskScore = JNumber (Num 1), sub_redFlags = None\<rparr>
     = Inr (Num (5348024557502463 / 562949953421312))
   \<and> report_riskScore (compile_report \<lparr>info_symbol = None\<rparr> ''mint'' ''now''
                      (Num (5348024557502463 / 562949953421312))
                      \<lparr>sub_riskScore = JNumber (Num 0), sub_redFlags = None\<rparr>
                      \<lparr>sub_riskScore = JNumber (Num 31), sub_redFlags = None\<rparr>
                      \<lparr>sub_riskScore = JNumber (Num 1), sub_redFlags = None\<rparr>) = Num 9
   \<and> spec_aggregate \<lparr>sub_riskScore = JNumber (Num 0), sub_redFlags = None\<rparr>
                      \<lparr>sub_riskScore = JNumber (Num 31), sub_redFlags = None\<rparr>
                      \<lparr>sub_riskScore = JNumber (Num 1), sub_redFlags = None\<rparr> = Inr (Num 9)"
proof -
  have c: "calculateRiskScore \<lparr>sub_riskScore = JNumber (Num 0), sub_redFlags = None\<rparr>
                      \<lparr>sub_riskScore = JNumber (Num 31), sub_redFlags = None\<rparr>
                      \<lparr>sub_riskScore = JNumber (Num 1), sub_redFlags = None\<rparr>
     = Inr (Num (5348024557502463 / 562949953421312))"
    by (simp add: calculateRiskScore_reals fl_exponents)
  have spec: "spec_aggregate \<lparr>sub_riskScore = JNumber (Num 0), sub_redFlags = None\<rparr>
                      \<lparr>sub_riskScore = JNumber (Num 31), sub_redFlags = None\<rparr>
                      \<lparr>sub_riskScore = JNumber (Num 1), sub_redFlags = None\<rparr> = Inr (Num 9)"
    by (simp add: spec_aggregate_def normalizeScore_def weights fl_exponents)
  have rep: "report_riskScore (compile_report \<lparr>info_symbol = None\<rparr> ''mint'' ''now''
                      (Num (5348024557502463 / 562949953421312))
                      \<lparr>sub_riskScore = JNumber (Num 0), sub_redFlags = None\<rparr>
                      \<lparr>sub_riskScore = JNumber (Num 31), sub_redFlags = None\<rparr>
                      \<lparr>sub_riskScore = JNumber (Num 1), sub_redFlags = None\<rparr>) = Num 9"
    by (simp add: report_riskScore_compile)
  have "\<exists>s. calculateRiskScore \<lparr>sub_riskScore = JNumber (Num 0), sub_redFlags = None\<rparr>
                      \<lparr>sub_riskScore = JNumber (Num 31), sub_redFlags = None\<rparr>
                      \<lparr>sub_riskScore = JNumber (Num 1), sub_redFlags = None\<rparr> = Inr (Num s)"
    using report_riskScore_rounds_weighted_sum
      [of "Num 0" "Num 31" "Num 1" None None None "\<lparr>info_symbol = None\<rparr>" "[]" "''now''"
          "''mint''"]
    by blast
  with c rep spec show ?thesis by simp
qed

subsection \<open>Sub-scores that are not Numbers\<close>











section \<open>Properties of the recommendation generator\<close>

lemma startsWith_iff: "startsWith s p \<longleftrightarrow> (\<exists>t. s = p @ t)"
  by (induction s p rule: startsWith.induct) auto

lemma str_includes_iff: "str_includes s p \<longleftrightarrow> (\<exists>a b. s = a @ p @ b)"
proof (induction s)
  case Nil
  then show ?case by simp
next
  case (Cons c cs)
  have "(\<exists>a b. c # cs = a @ p @ b) \<longleftrightarrow> (\<exists>t. c # cs = p @ t) \<or> (\<exists>a b. cs = a @ p @ b)"
  proof
    assume "\<exists>a b. c # cs = a @ p @ b"
    then obtain a b where ab: "c # cs = a @ p @ b" by blast
    show "(\<exists>t. c # cs = p @ t) \<or> (\<exists>a b. cs = a @ p @ b)"
    proof (cases a)
      case Nil
      with ab show ?thesis by auto
    next
      case (Cons x a')
      with ab have "cs = a' @ p @ b" by simp
      then show ?thesis by blast
    qed
  next
    assume "(\<exists>t. c # cs = p @ t) \<or> (\<exists>a b. cs = a @ p @ b)"
    then show "\<exists>a b. c # cs = a @ p @ b"
    proof
      assume "\<exists>t. c # cs = p @ t"
      then obtain t where "c # cs = [] @ p @ t" by auto
      then show ?thesis by blast
    next
      assume "\<exists>a b. cs = a @ p @ b"
      then obtain a b where "c # cs = (c # a) @ p @ b" by auto
      then show ?thesis by blast
    qed
  qed
  with Cons show ?case by (simp add: startsWith_iff del: startsWith.simps)
qed

lemma push_flag_recommendations_append:
  "push_flag_recommendations recommendations flag
     = recommendations @ push_flag_recommendations [] flag"
  by (simp add: push_flag_recommendations_def Let_def)

lemma foldl_push_flag_recommendations:
  "foldl push_flag_recommendations recommendations flags
     = recommendations @ concat (map (push_flag_recommendations []) flags)"
proof (induction flags arbitrary: recommendations)
  case Nil
  then show ?case by simp
next
  case (Cons flag flags)
  show ?case
    by (simp add: Cons.IH) (subst push_flag_recommendations_append, simp)
qed

lemma push_flag_recommendations_Nil:
  "push_flag_recommendations [] flag =
     (if str_includes flag ''mint authority''
      then [''Mint authority not renounced - unlimited token creation possible''] else [])
     @ (if str_includes flag ''liquidity'' \<or> str_includes flag ''LP''
        then [''Liquidity not locked - developers can remove funds anytime''] else [])
     @ (if str_includes flag ''concentration'' \<or> str_includes flag ''distribution''
        then [''High token concentration - single wallet controls majority supply''] else [])"
  by (simp add: push_flag_recommendations_def Let_def)

lemma push_flag_recommendations_Nil_fun:
  "push_flag_recommendations [] = (\<lambda>flag.
     (if str_includes flag ''mint authority''
      then [''Mint authority not renounced - unlimited token creation possible''] else [])
     @ (if str_includes flag ''liquidity'' \<or> str_includes flag ''LP''
        then [''Liquidity not locked - developers can remove funds anytime''] else [])
     @ (if str_includes flag ''concentration'' \<or> str_includes flag ''distribution''
        then [''High token concentration - single wallet controls majority supply''] else []))"
  by (rule ext) (rule push_flag_recommendations_Nil)

lemma tier_headlines_pushes:
  "(if js_ge riskScore (Num 80)
    then ([] @ [''DO NOT BUY - HIGH RUG PULL RISK'']) @ [''Avoid this token completely'']
    else if js_ge riskScore (Num 60)
    then ([] @ [''EXTREME CAUTION - High risk detected''])
           @ [''Only invest what you can afford to lose'']
    else if js_ge riskScore (Num 40)
    then ([] @ [''MODERATE CAUTION - Some red flags present''])
           @ [''Research thoroughly before investing'']
    else ([] @ [''APPEARS LEGITIMATE - Low risk detected''])
           @ [''Still exercise normal caution with new tokens'']) = tier_headlines riskScore"
  unfolding tier_headlines_def by (simp only: append_Nil append_Cons)

lemma on_chain_step:
  "(case sub_redFlags onChain of
      None \<Rightarrow> recs
    | Some flags \<Rightarrow>
        if 0 < length flags then foldl push_flag_recommendations recs flags else recs)
   = recs @ concat (map (push_flag_recommendations []) (flags_or_empty onChain))"
  by (cases "sub_redFlags onChain")
     (auto simp: flags_or_empty_def foldl_push_flag_recommendations)

lemma flag_warning_step:
  "(case sub_redFlags x of
      None \<Rightarrow> recs
    | Some flags \<Rightarrow> if 0 < length flags then recs @ [w] else recs)
   = recs @ (if flags_or_empty x \<noteq> [] then [w] else [])"
  by (cases "sub_redFlags x") (simp_all add: flags_or_empty_def)

lemma generateRecommendations_eq:
  "generateRecommendations riskScore onChain social code =
     tier_headlines riskScore
     @ concat (map (push_flag_recommendations []) (flags_or_empty onChain))
     @ (if flags_or_empty social \<noteq> [] then [''Social media shows suspicious activity''] else [])
     @ (if flags_or_empty code \<noteq> [] then [''Contract contains potential vulnerabilities''] else [])"
  unfolding generateRecommendations_def
  apply (simp only: on_chain_step flag_warning_step)
  apply (simp only: Let_def tier_headlines_pushes)
  apply (simp only: append_assoc)
  done

lemma count_list_concat_map:
  "count_list (concat (map f xs)) w = (\<Sum>x\<leftarrow>xs. count_list (f x) w)"
  by (induction xs) simp_all

lemma sum_list_indicator:
  "(\<Sum>x\<leftarrow>xs. if P x then 1 else 0) = length (filter P xs)"
  by (induction xs) simp_all

lemma count_warning:
  assumes h: "count_list (tier_headlines riskScore) w = 0"
    and f: "\<And>flag. count_list (push_flag_recommendations [] flag) w = (if P flag then 1 else 0)"
    and s: "w \<noteq> ''Social media shows suspicious activity''"
    and c: "w \<noteq> ''Contract contains potential vulnerabilities''"
  shows "count_list (generateRecommendations riskScore onChain social code) w
         = length (filter P (flags_or_empty onChain))"
proof -
  have "count_list (concat (map (push_flag_recommendations []) (flags_or_empty onChain))) w
        = length (filter P (flags_or_empty onChain))"
    by (simp only: count_list_concat_map f sum_list_indicator)
  moreover have "count_list (if flags_or_empty social \<noteq> []
                   then [''Social media shows suspicious activity''] else []) w = 0"
    using s by simp
  moreover have "count_list (if flags_or_empty code \<noteq> []
                   then [''Contract contains potential vulnerabilities''] else []) w = 0"
    using c by simp
  ultimately show ?thesis
    by (simp only: generateRecommendations_eq count_list_append h)
qed

lemma count_mint_warning:
  "count_list (generateRecommendations riskScore onChain social code)
     ''Mint authority not renounced - unlimited token creation possible''
   = length (filter (\<lambda>flag. str_includes flag ''mint authority'') (flags_or_empty onChain))"
  by (rule count_warning) (simp_all add: tier_headlines_def push_flag_recommendations_Nil)

lemma count_liquidity_warning:
  "count_list (generateRecommendations riskScore onChain social code)
     ''Liquidity not locked - developers can remove funds anytime''
   = length (filter (\<lambda>flag. str_includes flag ''liquidity'' \<or> str_includes flag ''LP'')
               (flags_or_empty onChain))"
  by (rule count_warning) (simp_all add: tier_headlines_def push_flag_recommendations_Nil)

lemma count_concentration_warning:
  "count_list (generateRecommendations riskScore onChain social code)
     ''High token concentration - single wallet controls majority supply''
   = length (filter (\<lambda>flag. str_includes flag ''concentration''
                              \<or> str_includes flag ''distribution'')
               (flags_or_empty onChain))"
  by (rule count_warning) (simp_all add: tier_headlines_def push_flag_recommendations_Nil)

text \<open>
  C8. \<open>generateRecommendations\<close> returns, in this order: the two headline strings of the
  score's band (at least 80, at least 60, at least 40, else); for each on-chain red flag, in
  the order the flags appear, the mint-authority warning if the flag contains
  "mint authority", the liquidity warning if it contains "liquidity" or "LP", the
  concentration warning if it contains "concentration" or "distribution"; one social warning
  if there is a social red flag; one code warning if there is a code red flag. Nothing is
  deduplicated: each of the three warnings occurs as often as there are on-chain flags
  that match it. A score of 85 yields "DO NOT BUY - HIGH RUG PULL RISK".
\<close>

theorem generateRecommendations_order:
  "generateRecommendations riskScore onChain social code =
     (if js_ge riskScore (Num 80)
      then [''DO NOT BUY - HIGH RUG PULL RISK'', ''Avoid this token completely'']
      else if js_ge riskScore (Num 60)
      then [''EXTREME CAUTION - High risk detected'', ''Only invest what you can afford to lose'']
      else if js_ge riskScore (Num 40)
      then [''MODERATE CAUTION - Some red flags present'', ''Research thoroughly before investing'']
      else [''APPEARS LEGITIMATE - Low risk detected'',
            ''Still exercise normal caution with new tokens''])
     @ concat (map (\<lambda>flag.
          (if str_includes flag ''mint authority''
           then [''Mint authority not renounced - unlimited token creation possible''] else [])
          @ (if str_includes flag ''liquidity'' \<or> str_includes flag ''LP''
             then [''Liquidity not locked - developers can remove funds anytime''] else [])
          @ (if str_includes flag ''concentration'' \<or> str_includes flag ''distribution''
             then [''High token concentration - single wallet controls majority supply'']
             else []))
        (flags_or_empty onChain))
     @ (if flags_or_empty social \<noteq> [] then [''Social media shows suspicious activity''] else [])
     @ (if flags_or_empty code \<noteq> [] then [''Contract contains potential vulnerabilities''] else [])
   \<and> ''DO NOT BUY - HIGH RUG PULL RISK''
       \<in> set (generateRecommendations (Num 85) onChain social code)
   \<and> count_list (generateRecommendations riskScore onChain social code)
         ''Mint authority not renounced - unlimited token creation possible''
       = length (filter (\<lambda>flag. str_includes flag ''mint authority'') (flags_or_empty onChain))
   \<and> count_list (generateRecommendations riskScore onChain social code)
         ''Liquidity not locked - developers can remove funds anytime''
       = length (filter (\<lambda>flag. str_includes flag ''liquidity'' \<or> str_includes flag ''LP'')
                   (flags_or_empty onChain))
   \<and> count_list (generateRecommendations riskScore onChain social code)
         ''High token concentration - single wallet controls majority supply''
       = length (filter (\<lambda>flag. str_includes flag ''concentration''
                                  \<or> str_includes flag ''distribution'')
                   (flags_or_empty onChain))
   \<and> (str_includes flag pattern \<longleftrightarrow> (\<exists>before after. flag = before @ pattern @ after))"
proof (intro conjI)
  show "generateRecommendations riskScore onChain social code =
     (if js_ge riskScore (Num 80)
      then [''DO NOT BUY - HIGH RUG PULL RISK'', ''Avoid this token completely'']
      else if js_ge riskScore (Num 60)
      then [''EXTREME CAUTION - High risk detected'', ''Only invest what you can afford to lose'']
      else if js_ge riskScore (Num 40)
      then [''MODERATE CAUTION - Some red flags present'', ''Research thoroughly before investing'']
      else [''APPEARS LEGITIMATE - Low risk detected'',
            ''Still exercise normal caution with new tokens''])
     @ concat (map (\<lambda>flag.
          (if str_includes flag ''mint authority''
           then [''Mint authority not renounced - unlimited token creation possible''] else [])
          @ (if str_includes flag ''liquidity'' \<or> str_includes flag ''LP''
             then [''Liquidity not locked - developers can remove funds anytime''] else [])
          @ (if str_includes flag ''concentration'' \<or> str_includes flag ''distribution''
             then [''High token concentration - single wallet controls majority supply'']
             else []))
        (flags_or_empty onChain))
     @ (if flags_or_empty social \<noteq> [] then [''Social media shows suspicious activity''] else [])
     @ (if flags_or_empty code \<noteq> [] then [''Contract contains potential vulnerabilities''] else [])"
    by (simp only: generateRecommendations_eq tier_headlines_def push_flag_recommendations_Nil_fun)
  have "tier_headlines (Num 85)
          = [''DO NOT BUY - HIGH RUG PULL RISK'', ''Avoid this token completely'']"
    by (simp add: tier_headlines_def)
  then show "''DO NOT BUY - HIGH RUG PULL RISK''
       \<in> set (generateRecommendations (Num 85) onChain social code)"
    by (simp only: generateRecommendations_eq set_append) simp
  show "count_list (generateRecommendations riskScore onChain social code)
         ''Mint authority not renounced - unlimited token creation possible''
       = length (filter (\<lambda>flag. str_includes flag ''mint authority'') (flags_or_empty onChain))"
    by (rule count_mint_warning)
  show "count_list (generateRecommendations riskScore onChain social code)
         ''Liquidity not locked - developers can remove funds anytime''
       = length (filter (\<lambda>flag. str_includes flag ''liquidity'' \<or> str_includes flag ''LP'')
                   (flags_or_empty onChain))"
    by (rule count_liquidity_warning)
  show "count_list (generateRecommendations riskScore onChain social code)
         ''High token concentration - single wallet controls majority supply''
       = length (filter (\<lambda>flag. str_includes flag ''concentration''
                                  \<or> str_includes flag ''distribution'')
                   (flags_or_empty onChain))"
    by (rule count_concentration_warning)
  show "str_includes flag pattern \<longleftrightarrow> (\<exists>before after. flag = before @ pattern @ after)"
    by (rule str_includes_iff)
qed

theorem generateRecommendations_order_witness:
  "generateRecommendations (Num 70)
     \<lparr>sub_riskScore = JNumber (Num 80),
      sub_redFlags = Some [''mint authority not renounced'', ''LP liquidity unlocked'',
                           ''Mint authority kept'', ''mint authority not renounced'']\<rparr>
     \<lparr>sub_riskScore = JNumber (Num 60), sub_redFlags = Some [''suspicious activity'']\<rparr>
     \<lparr>sub_riskScore = JNumber (Num 40), sub_redFlags = Some [''vulnerabilities'']\<rparr>
   = [''EXTREME CAUTION - High risk detected'', ''Only invest what you can afford to lose'',
      ''Mint authority not renounced - unlimited token creation possible'',
      ''Liquidity not locked - developers can remove funds anytime'',
      ''Mint authority not renounced - unlimited token creation possible'',
      ''Social media shows suspicious activity'',
      ''Contract contains potential vulnerabilities'']"
  using generateRecommendations_order
    [of "Num 70"
        "\<lparr>sub_riskScore = JNumber (Num 80),
          sub_redFlags = Some [''mint authority not renounced'', ''LP liquidity unlocked'',
                               ''Mint authority kept'', ''mint authority not renounced'']\<rparr>"
        "\<lparr>sub_riskScore = JNumber (Num 60), sub_redFlags = Some [''suspicious activity'']\<rparr>"
        "\<lparr>sub_riskScore = JNumber (Num 40), sub_redFlags = Some [''vulnerabilities'']\<rparr>"]
  by (simp add: flags_or_empty_def)

lemma tier_headlines_length: "length (tier_headlines riskScore) = 2"
  by (simp add: tier_headlines_def)

text \<open>
  C10. For every score, \<open>NaN\<close> and out-of-range values included, and all sub-analyses,
  \<open>generateRecommendations\<close> returns at least two strings, and the first two are the
  headline pair of the one band the score falls in; a score that fails all three
  comparisons, as \<open>NaN\<close> does, gets the pair of the last band.
\<close>

theorem generateRecommendations_headlines_first:
  "2 \<le> length (generateRecommendations riskScore onChain social code)
   \<and> generateRecommendations riskScore onChain social code \<noteq> []
   \<and> take 2 (generateRecommendations riskScore onChain social code) =
     (if js_ge riskScore (Num 80)
      then [''DO NOT BUY - HIGH RUG PULL RISK'', ''Avoid this token completely'']
      else if js_ge riskScore (Num 60)
      then [''EXTREME CAUTION - High risk detected'', ''Only invest what you can afford to lose'']
      else if js_ge riskScore (Num 40)
      then [''MODERATE CAUTION - Some red flags present'', ''Research thoroughly before investing'']
      else [''APPEARS LEGITIMATE - Low risk detected'',
            ''Still exercise normal caution with new tokens''])
   \<and> take 2 (generateRecommendations NaN onChain social code) =
       [''APPEARS LEGITIMATE - Low risk detected'',
        ''Still exercise normal caution with new tokens'']"
proof -
  have len: "2 \<le> length (generateRecommendations r onChain social code)" for r
    by (simp only: generateRecommendations_eq length_append tier_headlines_length le_add1)
  have tk: "take 2 (generateRecommendations r onChain social code) = tier_headlines r" for r
    by (simp only: generateRecommendations_eq) (simp add: tier_headlines_length)
  have ne: "generateRecommendations riskScore onChain social code \<noteq> []"
    using len [of riskScore] by auto
  have nan: "tier_headlines NaN = [''APPEARS LEGITIMATE - Low risk detected'',
        ''Still exercise normal caution with new tokens'']"
    by (simp add: tier_headlines_def)
  show ?thesis
  proof (intro conjI)
    show "2 \<le> length (generateRecommendations riskScore onChain social code)"
      by (rule len)
    show "generateRecommendations riskScore onChain social code \<noteq> []"
      by (rule ne)
    show "take 2 (generateRecommendations riskScore onChain social code) =
     (if js_ge riskScore (Num 80)
      then [''DO NOT BUY - HIGH RUG PULL RISK'', ''Avoid this token completely'']
      else if js_ge riskScore (Num 60)
      then [''EXTREME CAUTION - High risk detected'', ''Only invest what you can afford to lose'']
      else if js_ge riskScore (Num 40)
      then [''MODERATE CAUTION - Some red flags present'', ''Research thoroughly before investing'']
      else [''APPEARS LEGITIMATE - Low risk detected'',
            ''Still exercise normal caution with new tokens''])"
      using tk [of riskScore] unfolding tier_headlines_def .
    show "take 2 (generateRecommendations NaN onChain social code) =
       [''APPEARS LEGITIMATE - Low risk detected'',
        ''Still exercise normal caution with new tokens'']"
      by (simp only: tk nan)
  qed
qed

theorem generateRecommendations_headlines_first_witness:
  "generateRecommendations NaN
     \<lparr>sub_riskScore = JUndefined, sub_redFlags = None\<rparr>
     \<lparr>sub_riskScore = JUndefined, sub_redFlags = None\<rparr>
     \<lparr>sub_riskScore = JUndefined, sub_redFlags = None\<rparr>
   = [''APPEARS LEGITIMATE - Low risk detected'',
      ''Still exercise normal caution with new tokens'']
   \<and> take 2 (generateRecommendations (Num 15)
     \<lparr>sub_riskScore = JUndefined, sub_redFlags = Some [''LP unlocked'']\<rparr>
     \<lparr>sub_riskScore = JUndefined, sub_redFlags = None\<rparr>
     \<lparr>sub_riskScore = JUndefined, sub_redFlags = None\<rparr>)
   = [''APPEARS LEGITIMATE - Low risk detected'',
      ''Still exercise normal caution with new tokens'']"
proof -
  have "generateRecommendations NaN
     \<lparr>sub_riskScore = JUndefined, sub_redFlags = None\<rparr>
     \<lparr>sub_riskScore = JUndefined, sub_redFlags = None\<rparr>
     \<lparr>sub_riskScore = JUndefined, sub_redFlags = None\<rparr>
   = take 2 (generateRecommendations NaN
     \<lparr>sub_riskScore = JUndefined, sub_redFlags = None\<rparr>
     \<lparr>sub_riskScore = JUndefined, sub_redFlags = None\<rparr>
     \<lparr>sub_riskScore = JUndefined, sub_redFlags = None\<rparr>)"
    by (simp add: generateRecommendations_def)
  then show ?thesis
    using generateRecommendations_headlines_first
      [of NaN "\<lparr>sub_riskScore = JUndefined, sub_redFlags = None\<rparr>"
          "\<lparr>sub_riskScore = JUndefined, sub_redFlags = None\<rparr>"
          "\<lparr>sub_riskScore = JUndefined, sub_redFlags = None\<rparr>"]
      generateRecommendations_headlines_first
      [of "Num 15" "\<lparr>sub_riskScore = JUndefined, sub_redFlags = Some [''LP unlocked'']\<rparr>"
          "\<lparr>sub_riskScore = JUndefined, sub_redFlags = None\<rparr>"
          "\<lparr>sub_riskScore = JUndefined, sub_redFlags = None\<rparr>"]
    by simp
qed

section \<open>Properties of the summary generator\<close>

lemma str_includes_chars:
  assumes "str_includes s p"
  shows "set p \<subseteq> set s"
proof -
  from assms obtain a b where "s = a @ p @ b"
    using str_includes_iff by blast
  then show ?thesis by auto
qed

lemma digit_chars: "digit d \<in> set ''0123456789''"
proof -
  have "d mod 10 < length ''0123456789''" by simp
  then show ?thesis unfolding digit_def by (rule nth_mem)
qed

lemma nat_to_string_chars: "set (nat_to_string n) \<subseteq> set ''0123456789''"
proof (induction n rule: nat_to_string.induct)
  case (1 n)
  show ?case
  proof (cases "n < 10")
    case True
    then show ?thesis
      using digit_chars [of n] by (subst nat_to_string.simps) simp
  next
    case False
    then show ?thesis
      using 1 digit_chars [of "n mod 10"] by (subst nat_to_string.simps) simp
  qed
qed

lemma exponent_notation_chars:
  "set (exponent_notation ds) \<subseteq> set ds \<union> set ''.e+'' \<union> set ''0123456789''"
proof -
  define m where "m = rev (dropWhile (\<lambda>c. c = CHR ''0'') (rev ds))"
  define D where "D = set ''0123456789''"
  define E where "E = set ''.e+''"
  have m: "set m \<subseteq> set ds"
    unfolding m_def using set_dropWhileD [of _ "\<lambda>c. c = CHR ''0''" "rev ds"] by auto
  have parts: "set (take 1 m) \<subseteq> set ds" "set (drop 1 m) \<subseteq> set ds"
    using m set_take_subset [of 1 m] set_drop_subset [of 1 m] by blast+
  have digits: "set (nat_to_string (length ds - 1)) \<subseteq> D"
    unfolding D_def by (rule nat_to_string_chars)
  have marks: "set ''.'' \<subseteq> E" "set ''e+'' \<subseteq> E"
    unfolding E_def by simp_all
  have "set (exponent_notation ds) =
          set (take 1 m) \<union> (if 1 < length m then set ''.'' \<union> set (drop 1 m) else {})
          \<union> set ''e+'' \<union> set (nat_to_string (length ds - 1))"
    unfolding exponent_notation_def Let_def m_def [symmetric]
    by (simp only: set_append if_distrib [of set] list.set(1) Un_assoc)
  also have "\<dots> \<subseteq> set ds \<union> E \<union> D"
    using parts digits marks by (cases "1 < length m") (simp_all only: if_True if_False, blast+)
  finally show ?thesis
    unfolding D_def E_def .
qed

lemma integer_to_string_chars:
  "set (integer_to_string i) \<subseteq> set ''-'' \<union> set ''.e+'' \<union> set ''0123456789''"
proof -
  define D where "D = set ''0123456789''"
  define E where "E = set ''.e+''"
  define M where "M = set ''-''"
  define ds where "ds = nat_to_string (shortest_decimal (nat \<bar>i\<bar>))"
  have ds: "set ds \<subseteq> D"
    unfolding D_def ds_def by (rule nat_to_string_chars)
  have ex: "set (exponent_notation ds) \<subseteq> set ds \<union> E \<union> D"
    unfolding D_def E_def by (rule exponent_notation_chars)
  have "set (integer_to_string i) =
          (if i < 0 then M else {}) \<union> (if \<bar>i\<bar> < 10 ^ 21 then set ds else set (exponent_notation ds))"
    unfolding integer_to_string_def Let_def ds_def [symmetric] M_def
    by (simp only: set_append if_distrib [of set] list.set(1))
  also have "\<dots> \<subseteq> M \<union> E \<union> D"
    using ds ex by (cases "i < 0"; cases "\<bar>i\<bar> < 10 ^ 21") (simp_all only: if_True if_False, blast+)
  finally show ?thesis
    unfolding D_def E_def M_def .
qed

lemma numberToString_chars:
  assumes "c \<notin> set ''-'' \<union> set ''.e+'' \<union> set ''0123456789''"
    and "c \<notin> set ''NaN''" and "c \<notin> set ''Infinity''"
  shows "c \<notin> set (numberToString x)"
proof (cases x)
  case (Num r)
  then show ?thesis
    using integer_to_string_chars [of "\<lfloor>r\<rfloor>"] assms(1) by (simp only: numberToString.simps) blast
next
  case NaN
  then show ?thesis using assms(2) by simp
next
  case PosInf
  then show ?thesis using assms(3) by simp
next
  case NegInf
  have "set ''-Infinity'' = set ''-'' \<union> set ''Infinity''"
    by (simp only: list.set Un_insert_left Un_empty_left)
  with NegInf show ?thesis using assms(1,3) by (simp only: numberToString.simps) blast
qed

lemma numberToString_no_F: "CHR ''F'' \<notin> set (numberToString x)"
  by (rule numberToString_chars) simp_all

lemma numberToString_no_Y: "CHR ''Y'' \<notin> set (numberToString x)"
  by (rule numberToString_chars) simp_all

lemma foldl_flag_lines:
  "foldl (\<lambda>summary flag. summary @ line flag) s flags = s @ concat (map line flags)"
  by (induction flags arbitrary: s) simp_all

lemma section_append:
  "(if 0 < length allRedFlags
    then (let summary = s @ x;
              summary = foldl (\<lambda>summary flag. summary @ ''- '' @ flag @ newline)
                              summary (take 5 allRedFlags);
              summary = (if 5 < length allRedFlags then summary @ y else summary)
          in summary @ newline)
    else s)
   = s @ (if allRedFlags = [] then []
          else x @ concat (map (\<lambda>flag. ''- '' @ flag @ newline) (take 5 allRedFlags))
               @ (if 5 < length allRedFlags then y else []) @ newline)"
  by (simp add: Let_def foldl_flag_lines)

lemma label_append:
  "(if c1 then s @ a else if c2 then s @ b else if c3 then s @ c else s @ d)
   = s @ (if c1 then a else if c2 then b else if c3 then c else d)"
  by simp

lemma generateSummary_eq:
  "generateSummary riskScore onChain social code =
     emoji_siren @ '' RUG PULL ALERT: This token has '' @ getRiskLevel riskScore
     @ '' RUG PULL RISK ('' @ numberToString (Math_round riskScore) @ ''/100)''
     @ newline @ newline
     @ (if flags_or_empty onChain @ flags_or_empty social @ flags_or_empty code = [] then []
        else emoji_red_circle @ '' KEY RED FLAGS:'' @ newline
             @ concat (map (\<lambda>flag. ''- '' @ flag @ newline)
                 (take 5 (flags_or_empty onChain @ flags_or_empty social @ flags_or_empty code)))
             @ (if 5 < length (flags_or_empty onChain @ flags_or_empty social
                               @ flags_or_empty code)
                then ''- ...and ''
                     @ nat_to_string (length (flags_or_empty onChain @ flags_or_empty social
                                              @ flags_or_empty code) - 5)
                     @ '' more issues'' @ newline
                else [])
             @ newline)
     @ emoji_bulb @ '' RECOMMENDATION: ''
     @ (if js_ge riskScore (Num 80) then ''DO NOT BUY''
        else if js_ge riskScore (Num 60) then ''EXTREME CAUTION''
        else if js_ge riskScore (Num 40) then ''MODERATE CAUTION''
        else ''APPEARS SAFE'')"
  unfolding generateSummary_def
  apply (simp only: section_append label_append)
  apply (simp only: Let_def append_assoc)
  done

lemma level_no_Y: "CHR ''Y'' \<notin> set (getRiskLevel riskScore)"
  by (simp add: getRiskLevel_def)

lemma level_no_F: "js_ge riskScore (Num 80) \<Longrightarrow> CHR ''F'' \<notin> set (getRiskLevel riskScore)"
  by (simp add: getRiskLevel_def)

lemma summary_without_flags_no_section:
  "\<not> str_includes
       (emoji_siren @ '' RUG PULL ALERT: This token has '' @ getRiskLevel riskScore
        @ '' RUG PULL RISK ('' @ numberToString (Math_round riskScore) @ ''/100)''
        @ newline @ newline @ [] @ emoji_bulb @ '' RECOMMENDATION: ''
        @ (if js_ge riskScore (Num 80) then ''DO NOT BUY''
           else if js_ge riskScore (Num 60) then ''EXTREME CAUTION''
           else if js_ge riskScore (Num 40) then ''MODERATE CAUTION''
           else ''APPEARS SAFE''))
       ''KEY RED FLAGS''"
  (is "\<not> str_includes ?s _")
proof
  assume "str_includes ?s ''KEY RED FLAGS''"
  then have sub: "set ''KEY RED FLAGS'' \<subseteq> set ?s"
    by (rule str_includes_chars)
  have "CHR ''F'' \<in> set ''KEY RED FLAGS''" "CHR ''Y'' \<in> set ''KEY RED FLAGS''"
    by simp_all
  with sub have F: "CHR ''F'' \<in> set ?s" and Y: "CHR ''Y'' \<in> set ?s"
    by blast+
  have fixed_F: "CHR ''F'' \<notin> set emoji_siren" "CHR ''F'' \<notin> set '' RUG PULL ALERT: This token has ''"
    "CHR ''F'' \<notin> set '' RUG PULL RISK (''" "CHR ''F'' \<notin> set ''/100)''"
    "CHR ''F'' \<notin> set newline" "CHR ''F'' \<notin> set emoji_bulb"
    "CHR ''F'' \<notin> set '' RECOMMENDATION: ''" "CHR ''F'' \<notin> set ''DO NOT BUY''"
    by (simp_all add: emoji_siren_def emoji_bulb_def newline_def)
  have fixed_Y: "CHR ''Y'' \<notin> set emoji_siren" "CHR ''Y'' \<notin> set '' RUG PULL ALERT: This token has ''"
    "CHR ''Y'' \<notin> set '' RUG PULL RISK (''" "CHR ''Y'' \<notin> set ''/100)''"
    "CHR ''Y'' \<notin> set newline" "CHR ''Y'' \<notin> set emoji_bulb"
    "CHR ''Y'' \<notin> set '' RECOMMENDATION: ''" "CHR ''Y'' \<notin> set ''EXTREME CAUTION''"
    "CHR ''Y'' \<notin> set ''MODERATE CAUTION''" "CHR ''Y'' \<notin> set ''APPEARS SAFE''"
    by (simp_all add: emoji_siren_def emoji_bulb_def newline_def)
  show False
  proof (cases "js_ge riskScore (Num 80)")
    case True
    from F show False
      using fixed_F level_no_F [OF True] numberToString_no_F [of "Math_round riskScore"]
      by (simp only: True if_True set_append Un_iff list.set(1) empty_iff) blast
  next
    case False
    have label: "CHR ''Y'' \<notin> set (if js_ge riskScore (Num 60) then ''EXTREME CAUTION''
           else if js_ge riskScore (Num 40) then ''MODERATE CAUTION''
           else ''APPEARS SAFE'')"
      using fixed_Y(8,9,10)
      by (cases "js_ge riskScore (Num 60)"; cases "js_ge riskScore (Num 40)")
         (simp_all only: if_True if_False)
    from Y show False
      using fixed_Y(1-7) label level_no_Y [of riskScore]
        numberToString_no_Y [of "Math_round riskScore"]
      by (simp only: False if_False set_append Un_iff list.set(1) empty_iff) blast
  qed
qed

lemma str_includes_append_left:
  "str_includes t p \<Longrightarrow> str_includes (x @ t) p"
proof -
  assume "str_includes t p"
  then obtain a b where "t = a @ p @ b"
    using str_includes_iff by blast
  then have "x @ t = (x @ a) @ p @ b" by simp
  then show ?thesis
    unfolding str_includes_iff by blast
qed

lemma section_has_heading:
  "str_includes (emoji_red_circle @ '' KEY RED FLAGS:'' @ rest) ''KEY RED FLAGS''"
proof -
  have "emoji_red_circle @ '' KEY RED FLAGS:'' @ rest
          = (emoji_red_circle @ '' '') @ ''KEY RED FLAGS'' @ ('':'' @ rest)"
    by simp
  then show ?thesis
    unfolding str_includes_iff by blast
qed

text \<open>
  C9. The summary contains "KEY RED FLAGS" exactly when the concatenation of the on-chain,
  social and code red flags is not empty. The section lists the first five flags of that
  concatenation, one per line, then a line "...and N more issues" when there are more than
  five, and the summary ends with the recommendation label of the score's band.
\<close>

theorem generateSummary_structure:
  "(str_includes (generateSummary riskScore onChain social code) ''KEY RED FLAGS''
      \<longleftrightarrow> flags_or_empty onChain @ flags_or_empty social @ flags_or_empty code \<noteq> [])
   \<and> generateSummary riskScore onChain social code =
     emoji_siren @ '' RUG PULL ALERT: This token has '' @ getRiskLevel riskScore
     @ '' RUG PULL RISK ('' @ numberToString (Math_round riskScore) @ ''/100)''
     @ newline @ newline
     @ (if flags_or_empty onChain @ flags_or_empty social @ flags_or_empty code = [] then []
        else emoji_red_circle @ '' KEY RED FLAGS:'' @ newline
             @ concat (map (\<lambda>flag. ''- '' @ flag @ newline)
                 (take 5 (flags_or_empty onChain @ flags_or_empty social @ flags_or_empty code)))
             @ (if 5 < length (flags_or_empty onChain @ flags_or_empty social
                               @ flags_or_empty code)
                then ''- ...and ''
                     @ nat_to_string (length (flags_or_empty onChain @ flags_or_empty social
                                              @ flags_or_empty code) - 5)
                     @ '' more issues'' @ newline
                else [])
             @ newline)
     @ emoji_bulb @ '' RECOMMENDATION: ''
     @ (if js_ge riskScore (Num 80) then ''DO NOT BUY''
        else if js_ge riskScore (Num 60) then ''EXTREME CAUTION''
        else if js_ge riskScore (Num 40) then ''MODERATE CAUTION''
        else ''APPEARS SAFE'')"
proof (rule conjI)
  show "str_includes (generateSummary riskScore onChain social code) ''KEY RED FLAGS''
      \<longleftrightarrow> flags_or_empty onChain @ flags_or_empty social @ flags_or_empty code \<noteq> []"
  proof (cases "flags_or_empty onChain @ flags_or_empty social @ flags_or_empty code = []")
    case True
    show ?thesis
      using summary_without_flags_no_section [of riskScore]
      by (simp only: generateSummary_eq True if_True not_not simp_thms)
  next
    case False
    have "str_includes (generateSummary riskScore onChain social code) ''KEY RED FLAGS''"
      apply (simp only: generateSummary_eq False if_False append_assoc)
      apply (rule str_includes_append_left, rule str_includes_append_left,
             rule str_includes_append_left, rule str_includes_append_left,
             rule str_includes_append_left, rule str_includes_append_left,
             rule str_includes_append_left, rule str_includes_append_left)
      apply (rule section_has_heading)
      done
    with False show ?thesis by simp
  qed
  show "generateSummary riskScore onChain social code =
     emoji_siren @ '' RUG PULL ALERT: This token has '' @ getRiskLevel riskScore
     @ '' RUG PULL RISK ('' @ numberToString (Math_round riskScore) @ ''/100)''
     @ newline @ newline
     @ (if flags_or_empty onChain @ flags_or_empty social @ flags_or_empty code = [] then []
        else emoji_red_circle @ '' KEY RED FLAGS:'' @ newline
             @ concat (map (\<lambda>flag. ''- '' @ flag @ newline)
                 (take 5 (flags_or_empty onChain @ flags_or_empty social @ flags_or_empty code)))
             @ (if 5 < length (flags_or_empty onChain @ flags_or_empty social
                               @ flags_or_empty code)
                then ''- ...and ''
                     @ nat_to_string (length (flags_or_empty onChain @ flags_or_empty social
                                              @ flags_or_empty code) - 5)
                     @ '' more issues'' @ newline
                else [])
             @ newline)
     @ emoji_bulb @ '' RECOMMENDATION: ''
     @ (if js_ge riskScore (Num 80) then ''DO NOT BUY''
        else if js_ge riskScore (Num 60) then ''EXTREME CAUTION''
        else if js_ge riskScore (Num 40) then ''MODERATE CAUTION''
        else ''APPEARS SAFE'')"
    by (rule generateSummary_eq)
qed

theorem generateSummary_structure_witness:
  "generateSummary (Num (99 / 2))
     \<lparr>sub_riskScore = JNumber (Num 60),
      sub_redFlags = Some [''mint authority not renounced'', ''LP not locked'', ''whale'']\<rparr>
     \<lparr>sub_riskScore = JNumber (Num 45), sub_redFlags = None\<rparr>
     \<lparr>sub_riskScore = JNumber (Num 30),
      sub_redFlags = Some [''backdoor'', ''upgradeable'', ''proxy'', ''owner'']\<rparr>
   = emoji_siren @ '' RUG PULL ALERT: This token has MEDIUM RUG PULL RISK (50/100)''
     @ newline @ newline
     @ emoji_red_circle @ '' KEY RED FLAGS:'' @ newline
     @ ''- mint authority not renounced'' @ newline
     @ ''- LP not locked'' @ newline
     @ ''- whale'' @ newline
     @ ''- backdoor'' @ newline
     @ ''- upgradeable'' @ newline
     @ ''- ...and 2 more issues'' @ newline
     @ newline
     @ emoji_bulb @ '' RECOMMENDATION: MODERATE CAUTION''
   \<and> str_includes (generateSummary (Num (99 / 2))
     \<lparr>sub_riskScore = JNumber (Num 60),
      sub_redFlags = Some [''mint authority not renounced'', ''LP not locked'', ''whale'']\<rparr>
     \<lparr>sub_riskScore = JNumber (Num 45), sub_redFlags = None\<rparr>
     \<lparr>sub_riskScore = JNumber (Num 30),
      sub_redFlags = Some [''backdoor'', ''upgradeable'', ''proxy'', ''owner'']\<rparr>) ''KEY RED FLAGS''"
proof -
  note inst = generateSummary_structure
    [of "Num (99 / 2)"
        "\<lparr>sub_riskScore = JNumber (Num 60),
          sub_redFlags = Some [''mint authority not renounced'', ''LP not locked'', ''whale'']\<rparr>"
        "\<lparr>sub_riskScore = JNumber (Num 45), sub_redFlags = None\<rparr>"
        "\<lparr>sub_riskScore = JNumber (Num 30),
          sub_redFlags = Some [''backdoor'', ''upgradeable'', ''proxy'', ''owner'']\<rparr>"]
  have rendered: "generateSummary (Num (99 / 2))
     \<lparr>sub_riskScore = JNumber (Num 60),
      sub_redFlags = Some [''mint authority not renounced'', ''LP not locked'', ''whale'']\<rparr>
     \<lparr>sub_riskScore = JNumber (Num 45), sub_redFlags = None\<rparr>
     \<lparr>sub_riskScore = JNumber (Num 30),
      sub_redFlags = Some [''backdoor'', ''upgradeable'', ''proxy'', ''owner'']\<rparr>
   = emoji_siren @ '' RUG PULL ALERT: This token has MEDIUM RUG PULL RISK (50/100)''
     @ newline @ newline
     @ emoji_red_circle @ '' KEY RED FLAGS:'' @ newline
     @ ''- mint authority not renounced'' @ newline
     @ ''- LP not locked'' @ newline
     @ ''- whale'' @ newline
     @ ''- backdoor'' @ newline
     @ ''- upgradeable'' @ newline
     @ ''- ...and 2 more issues'' @ newline
     @ newline
     @ emoji_bulb @ '' RECOMMENDATION: MODERATE CAUTION''"
    using inst [THEN conjunct2]
    by (simp add: flags_or_empty_def getRiskLevel_def integer_to_string_def nat_to_string.simps
        digit_def shortest_decimal_def Let_def fl_exponents)
  have heading: "str_includes (generateSummary (Num (99 / 2))
     \<lparr>sub_riskScore = JNumber (Num 60),
      sub_redFlags = Some [''mint authority not renounced'', ''LP not locked'', ''whale'']\<rparr>
     \<lparr>sub_riskScore = JNumber (Num 45), sub_redFlags = None\<rparr>
     \<lparr>sub_riskScore = JNumber (Num 30),
      sub_redFlags = Some [''backdoor'', ''upgradeable'', ''proxy'', ''owner'']\<rparr>) ''KEY RED FLAGS''"
    using inst [THEN conjunct1] by (simp add: flags_or_empty_def)
  from rendered heading show ?thesis by (rule conjI)
qed

section \<open>Properties of the report\<close>

lemma twenty_to_string: "integer_to_string 20 = ''20''"
  by (simp add: integer_to_string_def nat_to_string.simps digit_def shortest_decimal_def Let_def
      fl_exponents)

text \<open>
  C5 does not hold of the code: \<open>analyzeToken\<close> stores the rounded score and classifies
  the unrounded one. For the sub-scores 39, 0, 0 the weighted sum is 19.5: the report
  holds \<open>riskScore\<close> 20 and \<open>riskLevel\<close> SAFE, and its summary reads "SAFE RUG PULL RISK
  (20/100)", while the classifier maps 20 to LOW. For the sub-scores 0, 62, 7 the doubles
  sum to 19.999999999999996, with the same report fields.
\<close>

theorem report_riskLevel_not_of_rounded_score:
  "calculateRiskScore \<lparr>sub_riskScore = JNumber (Num 39), sub_redFlags = Some []\<rparr>
                      \<lparr>sub_riskScore = JNumber (Num 0), sub_redFlags = Some []\<rparr>
                      \<lparr>sub_riskScore = JNumber (Num 0), sub_redFlags = Some []\<rparr>
     = Inr (Num (39 / 2))
   \<and> map_sum id report_riskScore
        (snd (analyzeToken (mock_collaborators (Inr (Some \<lparr>info_symbol = Some ''TEST''\<rparr>))
                (Inr \<lparr>sub_riskScore = JNumber (Num 39), sub_redFlags = Some []\<rparr>)
                (Inr \<lparr>sub_riskScore = JNumber (Num 0), sub_redFlags = Some []\<rparr>)
                (Inr \<lparr>sub_riskScore = JNumber (Num 0), sub_redFlags = Some []\<rparr>))
              [] ''2024-01-01T00:00:00.000Z'' ''test-mint-address''))
       = Inr (Num 20)
   \<and> map_sum id report_riskLevel
        (snd (analyzeToken (mock_collaborators (Inr (Some \<lparr>info_symbol = Some ''TEST''\<rparr>))
                (Inr \<lparr>sub_riskScore = JNumber (Num 39), sub_redFlags = Some []\<rparr>)
                (Inr \<lparr>sub_riskScore = JNumber (Num 0), sub_redFlags = Some []\<rparr>)
                (Inr \<lparr>sub_riskScore = JNumber (Num 0), sub_redFlags = Some []\<rparr>))
              [] ''2024-01-01T00:00:00.000Z'' ''test-mint-address''))
       = Inr ''SAFE''
   \<and> map_sum id report_summary
        (snd (analyzeToken (mock_collaborators (Inr (Some \<lparr>info_symbol = Some ''TEST''\<rparr>))
                (Inr \<lparr>sub_riskScore = JNumber (Num 39), sub_redFlags = Some []\<rparr>)
                (Inr \<lparr>sub_riskScore = JNumber (Num 0), sub_redFlags = Some []\<rparr>)
                (Inr \<lparr>sub_riskScore = JNumber (Num 0), sub_redFlags = Some []\<rparr>))
              [] ''2024-01-01T00:00:00.000Z'' ''test-mint-address''))
       = Inr (emoji_siren @ '' RUG PULL ALERT: This token has SAFE RUG PULL RISK (20/100)''
              @ newline @ newline @ emoji_bulb @ '' RECOMMENDATION: APPEARS SAFE'')
   \<and> calculateRiskScore \<lparr>sub_riskScore = JNumber (Num 0), sub_redFlags = Some []\<rparr>
                      \<lparr>sub_riskScore = JNumber (Num 62), sub_redFlags = Some []\<rparr>
                      \<lparr>sub_riskScore = JNumber (Num 7), sub_redFlags = Some []\<rparr>
     = Inr (Num (5629499534213119 / 281474976710656))
   \<and> map_sum id report_riskScore
        (snd (analyzeToken (mock_collaborators (Inr (Some \<lparr>info_symbol = Some ''TEST''\<rparr>))
                (Inr \<lparr>sub_riskScore = JNumber (Num 0), sub_redFlags = Some []\<rparr>)
                (Inr \<lparr>sub_riskScore = JNumber (Num 62), sub_redFlags = Some []\<rparr>)
                (Inr \<lparr>sub_riskScore = JNumber (Num 7), sub_redFlags = Some []\<rparr>))
              [] ''2024-01-01T00:00:00.000Z'' ''test-mint-address''))
       = Inr (Num 20)
   \<and> map_sum id report_riskLevel
        (snd (analyzeToken (mock_collaborators (Inr (Some \<lparr>info_symbol = Some ''TEST''\<rparr>))
                (Inr \<lparr>sub_riskScore = JNumber (Num 0), sub_redFlags = Some []\<rparr>)
                (Inr \<lparr>sub_riskScore = JNumber (Num 62), sub_redFlags = Some []\<rparr>)
                (Inr \<lparr>sub_riskScore = JNumber (Num 7), sub_redFlags = Some []\<rparr>))
              [] ''2024-01-01T00:00:00.000Z'' ''test-mint-address''))
       = Inr ''SAFE''
   \<and> getRiskLevel (Num 20) = ''LOW''"
proof -
  have half: "calculateRiskScore \<lparr>sub_riskScore = JNumber (Num 39), sub_redFlags = Some []\<rparr>
                      \<lparr>sub_riskScore = JNumber (Num 0), sub_redFlags = Some []\<rparr>
                      \<lparr>sub_riskScore = JNumber (Num 0), sub_redFlags = Some []\<rparr>
     = Inr (Num (39 / 2))"
    by (simp add: calculateRiskScore_reals fl_exponents)
  have below: "calculateRiskScore \<lparr>sub_riskScore = JNumber (Num 0), sub_redFlags = Some []\<rparr>
                      \<lparr>sub_riskScore = JNumber (Num 62), sub_redFlags = Some []\<rparr>
                      \<lparr>sub_riskScore = JNumber (Num 7), sub_redFlags = Some []\<rparr>
     = Inr (Num (5629499534213119 / 281474976710656))"
    by (simp add: calculateRiskScore_reals fl_exponents)
  have level: "getRiskLevel (Num 20) = ''LOW''"
    by (simp add: getRiskLevel_def)
  have summary: "generateSummary (Num (39 / 2))
        \<lparr>sub_riskScore = JNumber (Num 39), sub_redFlags = Some []\<rparr>
        \<lparr>sub_riskScore = JNumber (Num 0), sub_redFlags = Some []\<rparr>
        \<lparr>sub_riskScore = JNumber (Num 0), sub_redFlags = Some []\<rparr>
      = emoji_siren @ '' RUG PULL ALERT: This token has SAFE RUG PULL RISK (20/100)''
              @ newline @ newline @ emoji_bulb @ '' RECOMMENDATION: APPEARS SAFE''"
    by (simp add: generateSummary_def Let_def flags_or_empty_def getRiskLevel_def twenty_to_string)
  show ?thesis
    by (simp add: half below level summary mock_success [OF half] mock_success [OF below]
        report_riskScore_compile report_riskLevel_compile report_summary_compile getRiskLevel_def)
qed


end
